theory Spec2Isabelle
  imports Complex_Main
begin

section \<open>Python values\<close>

text \<open>
  The exceptions the three source files can raise.  \<open>LibraryError\<close> stands for any
  exception (a subclass of \<open>Exception\<close>) coming out of the document-rendering library.
\<close>

datatype exn =
    ValueError
  | TypeError
  | OverflowError
  | IndexError
  | FileNotFoundError
  | IsADirectoryError
  | CalledProcessError int
  | JSONDecodeError
  | LibraryError string

text \<open>
  A Python \<open>float\<close> is an IEEE binary64 number.  A finite value is kept as the exact
  rational it denotes; the negative zero, the infinities and NaN are values of their own.
\<close>

datatype pyfloat = Finite rat | NegZero | PosInf | NegInf | NaN

text \<open>
  What \<open>json.load\<close> produces, which is what the report formatter receives: \<open>None\<close>,
  \<open>bool\<close>, \<open>int\<close> (unbounded), \<open>float\<close>, \<open>str\<close>, \<open>list\<close> and \<open>dict\<close>.  A
  \<open>dict\<close> is the list of its items in insertion order (the keys of a Python \<open>dict\<close>
  are distinct, so \<open>len\<close> is the length of that list).  A string is the list of
  the bytes of its UTF-8 encoding, so that an ASCII string is the list of its
  characters; a cut at a space or at a slash is the same on the encoding.
\<close>

datatype json =
    JNull
  | JBool bool
  | JInt int
  | JFloat pyfloat
  | JStr string
  | JList "json list"
  | JDict "(string \<times> json) list"

type_synonym bytes = string

subsection \<open>Binary64 arithmetic\<close>

definition round_half_even :: "rat \<Rightarrow> int" where
  "round_half_even x =
     (let f = \<lfloor>x\<rfloor>; d = x - of_int f
      in if d < 1 / 2 then f else if 1 / 2 < d then f + 1 else if even f then f else f + 1)"

definition pow2 :: "int \<Rightarrow> rat" where
  "pow2 e = (if 0 \<le> e then 2 ^ nat e else 1 / 2 ^ nat (- e))"

fun bit_length :: "nat \<Rightarrow> nat" where
  "bit_length n = (if n = 0 then 0 else Suc (bit_length (n div 2)))"

text \<open>\<open>ilog2 x\<close> is \<open>\<lfloor>log\<^sub>2 x\<rfloor>\<close> for a positive rational \<open>x\<close>.\<close>

definition ilog2 :: "rat \<Rightarrow> int" where
  "ilog2 x =
     (if 1 \<le> x then int (bit_length (nat \<lfloor>x\<rfloor>)) - 1
      else - int (bit_length (nat (\<lceil>1 / x\<rceil> - 1))))"

text \<open>
  Rounding to the nearest binary64 value, ties to even: 53 significant bits, and the
  fixed quantum \<open>2\<^sup>-\<^sup>1\<^sup>0\<^sup>7\<^sup>4\<close> in the subnormal range.  The result may reach
  \<open>2\<^sup>1\<^sup>0\<^sup>2\<^sup>4\<close>, which the callers treat as overflow.
\<close>

definition round_binary64 :: "rat \<Rightarrow> rat" where
  "round_binary64 x =
     (if x = 0 then 0
      else let e = max (ilog2 \<bar>x\<bar> - 52) (- 1074)
           in of_int (round_half_even (x / pow2 e)) * pow2 e)"

text \<open>\<open>float(i)\<close> for an \<open>int\<close>: correctly rounded, \<open>OverflowError\<close> beyond the range.\<close>

definition float_of_int :: "int \<Rightarrow> exn + pyfloat" where
  "float_of_int i =
     (let r = round_binary64 (of_int i)
      in if 2 ^ 1024 \<le> \<bar>r\<bar> then Inl OverflowError else Inr (Finite r))"

text \<open>\<open>x / 1000.0\<close>: the quotient cannot overflow; a negative one may underflow to \<open>-0.0\<close>.\<close>

definition truediv_1000 :: "pyfloat \<Rightarrow> pyfloat" where
  "truediv_1000 x =
     (case x of
        Finite q \<Rightarrow>
          (let r = round_binary64 (q / 1000)
           in if r = 0 \<and> q < 0 then NegZero else Finite r)
      | NegZero \<Rightarrow> NegZero
      | PosInf \<Rightarrow> PosInf
      | NegInf \<Rightarrow> NegInf
      | NaN \<Rightarrow> NaN)"

subsection \<open>Formatting and strings\<close>

definition digit_char :: "nat \<Rightarrow> char" where
  "digit_char d =
     (if d = 0 then CHR ''0'' else if d = 1 then CHR ''1'' else if d = 2 then CHR ''2''
      else if d = 3 then CHR ''3'' else if d = 4 then CHR ''4'' else if d = 5 then CHR ''5''
      else if d = 6 then CHR ''6'' else if d = 7 then CHR ''7'' else if d = 8 then CHR ''8''
      else CHR ''9'')"

fun show_nat :: "nat \<Rightarrow> string" where
  "show_nat n =
     (if n < 10 then [digit_char n] else show_nat (n div 10) @ [digit_char (n mod 10)])"

declare show_nat.simps [simp del]
declare bit_length.simps [simp del]

text \<open>\<open>n\<close> hundredths in fixed notation with two decimals.\<close>

definition fixed2 :: "nat \<Rightarrow> string" where
  "fixed2 n = show_nat (n div 100) @ ''.'' @ [digit_char (n mod 100 div 10), digit_char (n mod 10)]"

text \<open>
  The format specification \<open>.2f\<close>: the exact value of the float, correctly rounded
  (ties to even) to two decimals; the sign is kept also where the digits are all zero.
\<close>

definition fmt_2f :: "pyfloat \<Rightarrow> string" where
  "fmt_2f x =
     (case x of
        Finite q \<Rightarrow>
          (if q < 0 then ''-'' else '''') @ fixed2 (nat (round_half_even (\<bar>q\<bar> * 100)))
      | NegZero \<Rightarrow> ''-0.00''
      | PosInf \<Rightarrow> ''inf''
      | NegInf \<Rightarrow> ''-inf''
      | NaN \<Rightarrow> ''nan'')"

definition letter_table :: "(char \<times> char) list" where
  "letter_table = zip ''abcdefghijklmnopqrstuvwxyz'' ''ABCDEFGHIJKLMNOPQRSTUVWXYZ''"

definition to_upper :: "char \<Rightarrow> char" where
  "to_upper c = (case map_of letter_table c of Some u \<Rightarrow> u | None \<Rightarrow> c)"

definition to_lower :: "char \<Rightarrow> char" where
  "to_lower c = (case map_of (map prod.swap letter_table) c of Some l \<Rightarrow> l | None \<Rightarrow> c)"

text \<open>
  \<open>str.capitalize()\<close> on an ASCII string: the first character in upper case, the
  others in lower case.
\<close>

definition is_ascii :: "char \<Rightarrow> bool" where
  "is_ascii c = (\<not> digit7 c)"

definition ascii_capitalize :: "string \<Rightarrow> string" where
  "ascii_capitalize s = (case s of [] \<Rightarrow> [] | c # cs \<Rightarrow> to_upper c # map to_lower cs)"

section \<open>The report formatter (totalseg\_pdf.py)\<close>

text \<open>
  The blocks handed to the rendering library.  A paragraph carries its text and its
  style (name and alignment), a spacer its width and height in points, a table its rows
  and column widths.  The \<open>TableStyle\<close> of the source is one fixed list of drawing
  commands, the same for every input, and is not part of the block.  Lengths are exact
  rationals where the source computes them in floating point; no statement below
  depends on them.  The calls of \<open>print\<close> write diagnostics to the console and are
  left out, here and in the operators.
\<close>

datatype style = Style string nat

datatype flowable =
    Paragraph string style
  | Spacer rat rat
  | Table "string list list" "rat list"

text \<open>
  What one invocation of the function takes from its surroundings: the clock, read
  once and formatted with \<open>strftime("%Y-%m-%d %H:%M:%S")\<close>; what the rendering
  library draws by itself when it builds a document (the creation and modification
  dates and the document identifier it writes into the file); the built-in conversion
  of a \<open>str\<close> to a \<open>float\<close> (\<open>None\<close> where it raises \<open>ValueError\<close>); the method
  \<open>str.capitalize\<close> on strings with non-ASCII characters, on their encodings; and
  \<open>doc.build\<close> of the rendering library, which for the stamp it drew and the story
  writes the document's bytes into the buffer or raises.
\<close>

record runtime =
  clock :: string
  build_stamp :: string
  str_to_float :: "string \<Rightarrow> pyfloat option"
  str_capitalize :: "string \<Rightarrow> string"
  doc_build :: "string \<Rightarrow> flowable list \<Rightarrow> exn + bytes"

text \<open>\<open>organ.capitalize()\<close>\<close>

definition capitalize :: "runtime \<Rightarrow> string \<Rightarrow> string" where
  "capitalize rt s = (if list_all is_ascii s then ascii_capitalize s else str_capitalize rt s)"

text \<open>\<open>doc.build(story)\<close> at this invocation.\<close>

definition render :: "runtime \<Rightarrow> flowable list \<Rightarrow> exn + bytes" where
  "render rt story = doc_build rt (build_stamp rt) story"

text \<open>\<open>float(v)\<close> for a value read from JSON.\<close>

definition py_float :: "runtime \<Rightarrow> json \<Rightarrow> exn + pyfloat" where
  "py_float rt v =
     (case v of
        JNull \<Rightarrow> Inl TypeError
      | JBool b \<Rightarrow> Inr (Finite (if b then 1 else 0))
      | JInt i \<Rightarrow> float_of_int i
      | JFloat f \<Rightarrow> Inr f
      | JStr s \<Rightarrow> (case str_to_float rt s of Some f \<Rightarrow> Inr f | None \<Rightarrow> Inl ValueError)
      | JList xs \<Rightarrow> Inl TypeError
      | JDict kvs \<Rightarrow> Inl TypeError)"

definition title_style :: style where
  "title_style = Style ''h1'' 0"

text \<open>
  \<open>normal_style\<close> is the object \<open>styles['Normal']\<close> itself, so the assignment of
  alignment 1 also reaches the paragraph of the date, which looks the style up again.
\<close>

definition normal_style :: style where
  "normal_style = Style ''Normal'' 1"

definition inch :: rat where
  "inch = 72"

definition table_header :: "string list" where
  "table_header = [''Organ'', ''Volume (cm'' @ [CHR 0xC2, CHR 0xB3] @ '')'']"

definition missing_row :: "runtime \<Rightarrow> string \<Rightarrow> string list \<times> bool" where
  "missing_row rt organ = ([capitalize rt organ, ''Missing Data''], False)"

definition invalid_row :: "runtime \<Rightarrow> string \<Rightarrow> string list \<times> bool" where
  "invalid_row rt organ = ([capitalize rt organ, ''Invalid Data''], False)"

text \<open>
  The body of the loop over \<open>data.items()\<close>: the row appended for one organ, and
  whether \<open>valid_entries\<close> is incremented.  Only \<open>ValueError\<close> and \<open>TypeError\<close> are
  caught; the \<open>OverflowError\<close> of \<open>float\<close> leaves the function.
\<close>

definition organ_row :: "runtime \<Rightarrow> string \<Rightarrow> json \<Rightarrow> exn + (string list \<times> bool)" where
  "organ_row rt organ details =
     (case details of
        JDict d \<Rightarrow>
          (case map_of d ''volume'' of
             None \<Rightarrow> Inr (missing_row rt organ)
           | Some v \<Rightarrow>
               (case py_float rt v of
                  Inr volume_mm3 \<Rightarrow>
                    (let volume_cm3 = truediv_1000 volume_mm3;
                         formatted_volume = fmt_2f volume_cm3
                     in Inr ([capitalize rt organ, formatted_volume], True))
                | Inl e \<Rightarrow>
                    if e = ValueError \<or> e = TypeError then Inr (invalid_row rt organ) else Inl e))
      | JNull \<Rightarrow> Inr (missing_row rt organ)
      | JBool b \<Rightarrow> Inr (missing_row rt organ)
      | JInt i \<Rightarrow> Inr (missing_row rt organ)
      | JFloat f \<Rightarrow> Inr (missing_row rt organ)
      | JStr s \<Rightarrow> Inr (missing_row rt organ)
      | JList xs \<Rightarrow> Inr (missing_row rt organ))"

fun table_loop ::
  "runtime \<Rightarrow> (string \<times> json) list \<Rightarrow> string list list \<Rightarrow> nat \<Rightarrow>
     exn + (string list list \<times> nat)" where
  "table_loop rt [] table_data valid_entries = Inr (table_data, valid_entries)"
| "table_loop rt ((organ, details) # rest) table_data valid_entries =
     (case organ_row rt organ details of
        Inl e \<Rightarrow> Inl e
      | Inr (row, valid) \<Rightarrow>
          table_loop rt rest (table_data @ [row])
            (if valid then valid_entries + 1 else valid_entries))"

definition report_head :: "string \<Rightarrow> flowable list" where
  "report_head current_date =
     [Paragraph ''Organ Volume Report'' title_style,
      Spacer 1 (2 / 10 * inch),
      Paragraph (''Report generated on: '' @ current_date) normal_style,
      Spacer 1 (3 / 10 * inch)]"

definition col_widths :: "rat list" where
  "col_widths =
     (let page_width = 612; available_width = page_width - 1 * inch - 1 * inch
      in [available_width * (4 / 10), available_width * (6 / 10)])"

text \<open>
  The story the function builds, with the place where it is rendered: \<open>Explanatory\<close>
  is rendered by the \<open>doc.build\<close> calls of lines 86 and 92, which stand outside any
  \<open>try\<close>; \<open>WithTable\<close> by the call of line 136, inside \<open>try ... except Exception\<close>.
\<close>

datatype plan = Explanatory "flowable list" | WithTable "flowable list"

definition report_plan :: "runtime \<Rightarrow> (string \<times> json) list \<Rightarrow> exn + plan" where
  "report_plan rt items =
     (let story = report_head (clock rt)
      in case table_loop rt items [table_header] 0 of
           Inl e \<Rightarrow> Inl e
         | Inr (table_data, valid_entries) \<Rightarrow>
             if valid_entries = 0 \<and> length items > 0 then
               Inr (Explanatory (story @
                 [Paragraph ''No valid organ volume data available to display.'' normal_style]))
             else if valid_entries = 0 then
               Inr (Explanatory (story @ [Paragraph ''Input data was empty.'' normal_style]))
             else
               Inr (WithTable (story @ [Table table_data col_widths, Spacer 1 (5 / 10 * inch)])))"

text \<open>
  \<open>generate_pdf_report\<close>: \<open>Inl\<close> is an exception leaving the function, \<open>Inr None\<close>
  the return value \<open>None\<close>, \<open>Inr (Some b)\<close> the bytes of the report.
\<close>

definition generate_pdf_report :: "runtime \<Rightarrow> json \<Rightarrow> exn + bytes option" where
  "generate_pdf_report rt data =
     (case data of
        JDict items \<Rightarrow>
          if items = [] then Inr None
          else
            (case report_plan rt items of
               Inl e \<Rightarrow> Inl e
             | Inr (Explanatory story) \<Rightarrow>
                 (case render rt story of Inl e \<Rightarrow> Inl e | Inr pdf_bytes \<Rightarrow> Inr (Some pdf_bytes))
             | Inr (WithTable story) \<Rightarrow>
                 (case render rt story of Inl e \<Rightarrow> Inr None | Inr pdf_bytes \<Rightarrow> Inr (Some pdf_bytes)))
      | JNull \<Rightarrow> Inr None
      | JBool b \<Rightarrow> Inr None
      | JInt i \<Rightarrow> Inr None
      | JFloat f \<Rightarrow> Inr None
      | JStr s \<Rightarrow> Inr None
      | JList xs \<Rightarrow> Inr None)"


section \<open>Files, processes and DICOM objects\<close>

text \<open>
  The file system is a map from paths to nodes.  \<open>is_under d p\<close> holds for \<open>d\<close> itself
  and for every path below it.
\<close>

type_synonym path = string

datatype node = File bytes | Dir

type_synonym fsys = "path \<Rightarrow> node option"

definition is_under :: "path \<Rightarrow> path \<Rightarrow> bool" where
  "is_under d p = (p = d \<or> take (Suc (length d)) p = d @ ''/'')"

definition basename :: "path \<Rightarrow> string" where
  "basename p = rev (takeWhile (\<lambda>c. c \<noteq> CHR ''/'') (rev p))"

text \<open>The removal of a directory tree, as the exit of \<open>TemporaryDirectory\<close> does it.\<close>

definition rmtree :: "path \<Rightarrow> fsys \<Rightarrow> fsys" where
  "rmtree d fs = (\<lambda>p. if is_under d p then None else fs p)"

text \<open>\<open>shutil.copy2(src, dst)\<close> where \<open>dst\<close> is a directory.\<close>

definition copy2 :: "path \<Rightarrow> path \<Rightarrow> fsys \<Rightarrow> (exn + unit) \<times> fsys" where
  "copy2 src dst fs =
     (case fs src of
        None \<Rightarrow> (Inl FileNotFoundError, fs)
      | Some Dir \<Rightarrow> (Inl IsADirectoryError, fs)
      | Some (File content) \<Rightarrow> (Inr (), fs(dst @ ''/'' @ basename src \<mapsto> File content)))"

text \<open>\<open>open(js, "r")\<close> and the reading of the whole file.\<close>

definition read_text :: "fsys \<Rightarrow> path \<Rightarrow> exn + bytes" where
  "read_text fs p =
     (case fs p of
        None \<Rightarrow> Inl FileNotFoundError
      | Some Dir \<Rightarrow> Inl IsADirectoryError
      | Some (File content) \<Rightarrow> Inr content)"

text \<open>\<open>cmd.split(" ")\<close>: a cut at every single space.\<close>

fun split_space :: "string \<Rightarrow> string list" where
  "split_space [] = [[]]"
| "split_space (c # cs) =
     (if c = CHR '' '' then [] # split_space cs
      else (case split_space cs of [] \<Rightarrow> [[c]] | w # ws \<Rightarrow> (c # w) # ws))"

text \<open>
  The objects of the DICOM library, reduced to what the source reads of them: the
  file name of every SOP instance of a series (\<open>f._sop.filename\<close> for \<open>f\<close> in
  \<open>series.get_sop_instances()\<close>), the series of a selection and the selections of a
  study.
\<close>

record DICOMSeries =
  series_uid :: string
  sop_filenames :: "path list"

record SelectedSeries =
  selection_name :: string
  series :: DICOMSeries

record StudySelectedSeries =
  study_uid :: string
  selected_series :: "SelectedSeries list"

record DICOMStudy =
  study_instance_uid :: string
  all_series :: "DICOMSeries list"

text \<open>Keyword arguments given to the constructor of an operator.\<close>

datatype kwarg =
    KStr string
  | KPath path
  | KModelInfo string string string string
  | KTags "(string \<times> string) list"

text \<open>
  What the stages take from outside this repository: the name \<open>tempfile\<close> chooses
  for a new directory; the run of a child process, which either cannot be started or
  exits with a status, and changes the file system; the JSON parser (\<open>None\<close> where it
  raises); and the three operators of the deployment library, each a function of the
  keyword arguments of its constructor.
\<close>

record host =
  mkdtemp :: "fsys \<Rightarrow> path"
  run_process :: "string list \<Rightarrow> fsys \<Rightarrow> (exn + int) \<times> fsys"
  json_loads :: "bytes \<Rightarrow> json option"
  load_studies :: "(string \<times> kwarg) list \<Rightarrow> fsys \<Rightarrow> exn + DICOMStudy list"
  select_series :: "(string \<times> kwarg) list \<Rightarrow> DICOMStudy list \<Rightarrow> exn + StudySelectedSeries list"
  write_pdf_dcm ::
    "(string \<times> kwarg) list \<Rightarrow> StudySelectedSeries list \<Rightarrow> bytes option \<Rightarrow> fsys \<Rightarrow> exn option \<times> fsys"

text \<open>\<open>subprocess.check_output\<close>: a non-zero exit status is \<open>CalledProcessError\<close>.\<close>

definition check_output :: "host \<Rightarrow> string list \<Rightarrow> fsys \<Rightarrow> (exn + unit) \<times> fsys" where
  "check_output h argv fs =
     (case run_process h argv fs of
        (Inl e, fs') \<Rightarrow> (Inl e, fs')
      | (Inr status, fs') \<Rightarrow>
          if status = 0 then (Inr (), fs') else (Inl (CalledProcessError status), fs'))"

text \<open>
  \<open>with tempfile.TemporaryDirectory() as temp\<close>: the directory is created, the body
  runs, and the tree is removed whether the body returns or raises.
\<close>

definition with_temporary_directory ::
  "host \<Rightarrow> (path \<Rightarrow> fsys \<Rightarrow> (exn + 'a) \<times> fsys) \<Rightarrow> fsys \<Rightarrow> (exn + 'a) \<times> fsys" where
  "with_temporary_directory h body fs =
     (let temp = mkdtemp h fs
      in case body temp (fs(temp \<mapsto> Dir)) of (r, fs') \<Rightarrow> (r, rmtree temp fs'))"

section \<open>The operators (totalseg\_operator.py)\<close>

text \<open>What travels between the operators.  \<open>PdfBytes None\<close> is the value \<open>None\<close>.\<close>

datatype payload =
    StudyList "DICOMStudy list"
  | SelectedSeriesList "StudySelectedSeries list"
  | ReportDict json
  | PdfBytes "bytes option"

text \<open>
  The result of one \<open>compute\<close>: the exception that left it, if any, the calls of
  \<open>op_output.emit(value, port)\<close> it made, and the file system it leaves.
\<close>

record outcome =
  fault :: "exn option"
  emitted :: "(payload \<times> string) list"
  after :: fsys

subsection \<open>TotalsegmentatorOperator\<close>

text \<open>\<open>data_in[0].selected_series[0].series\<close>\<close>

definition first_selected_series :: "StudySelectedSeries list \<Rightarrow> exn + DICOMSeries" where
  "first_selected_series data_in =
     (case data_in of
        [] \<Rightarrow> Inl IndexError
      | study # others \<Rightarrow>
          (case selected_series study of
             [] \<Rightarrow> Inl IndexError
           | s # unused \<Rightarrow> Inr (series s)))"

fun copy_instances :: "path list \<Rightarrow> path \<Rightarrow> fsys \<Rightarrow> (exn + unit) \<times> fsys" where
  "copy_instances [] temp fs = (Inr (), fs)"
| "copy_instances (dcm_filepath # rest) temp fs =
     (case copy2 dcm_filepath temp fs of
        (Inl e, fs') \<Rightarrow> (Inl e, fs')
      | (Inr u, fs') \<Rightarrow> copy_instances rest temp fs')"

definition totalseg_cmd :: "path \<Rightarrow> path \<Rightarrow> string" where
  "totalseg_cmd in_dir out_dir =
     ''TotalSegmentator -f --roi_subset spleen --statistics --body_seg -i '' @ in_dir
       @ '' -o '' @ out_dir"

text \<open>Lines 78 to 86: the run of the executable and the reading of its statistics.\<close>

definition run_totalsegmentator :: "host \<Rightarrow> path \<Rightarrow> fsys \<Rightarrow> (exn + json) \<times> fsys" where
  "run_totalsegmentator h temp fs =
     (let in_dir = temp;
          out_dir = in_dir @ ''/out'';
          cmd = totalseg_cmd in_dir out_dir
      in case check_output h (split_space cmd) fs of
           (Inl e, fs') \<Rightarrow> (Inl e, fs')
         | (Inr u, fs') \<Rightarrow>
             (let js = out_dir @ ''/statistics.json''
              in case read_text fs' js of
                   Inl e \<Rightarrow> (Inl e, fs')
                 | Inr content \<Rightarrow>
                     (case json_loads h content of
                        None \<Rightarrow> (Inl JSONDecodeError, fs')
                      | Some report \<Rightarrow> (Inr report, fs'))))"

text \<open>The body of the \<open>with\<close> statement.\<close>

definition segment_in :: "host \<Rightarrow> StudySelectedSeries list \<Rightarrow> path \<Rightarrow> fsys \<Rightarrow> (exn + json) \<times> fsys" where
  "segment_in h data_in temp fs =
     (case first_selected_series data_in of
        Inl e \<Rightarrow> (Inl e, fs)
      | Inr s \<Rightarrow>
          (case copy_instances (sop_filenames s) temp fs of
             (Inl e, fs') \<Rightarrow> (Inl e, fs')
           | (Inr u, fs') \<Rightarrow> run_totalsegmentator h temp fs'))"

definition totalseg_compute :: "host \<Rightarrow> StudySelectedSeries list \<Rightarrow> fsys \<Rightarrow> outcome" where
  "totalseg_compute h data_in fs =
     (case with_temporary_directory h (segment_in h data_in) fs of
        (Inl e, fs') \<Rightarrow> \<lparr>fault = Some e, emitted = [], after = fs'\<rparr>
      | (Inr report, fs') \<Rightarrow>
          \<lparr>fault = None, emitted = [(ReportDict report, ''report_dict'')], after = fs'\<rparr>)"

subsection \<open>TotalsegmentatorPDFOperator\<close>

definition pdf_compute :: "runtime \<Rightarrow> json \<Rightarrow> fsys \<Rightarrow> outcome" where
  "pdf_compute rt report_dict fs =
     (case generate_pdf_report rt report_dict of
        Inl e \<Rightarrow> \<lparr>fault = Some e, emitted = [], after = fs\<rparr>
      | Inr pdf_bytes \<Rightarrow>
          \<lparr>fault = None, emitted = [(PdfBytes pdf_bytes, ''pdf_bytes'')], after = fs\<rparr>)"

section \<open>The application (app.py)\<close>

text \<open>
  An operator as \<open>compose\<close> constructs it: the class, the \<open>name\<close> argument, the
  count of a \<open>CountCondition\<close> if one is given, and the other keyword arguments.
\<close>

record operator =
  op_class :: string
  op_name :: string
  op_count :: "nat option"
  op_kwargs :: "(string \<times> kwarg) list"

type_synonym edge = "(string \<times> string) \<times> (string \<times> string)"

record application =
  operators :: "operator list"
  flows :: "edge list"

definition add_operator :: "operator \<Rightarrow> operator list \<Rightarrow> operator list" where
  "add_operator op ops = (if op \<in> set ops then ops else ops @ [op])"

text \<open>
  Modelled from the spec: \<open>Application.add_flow\<close> belongs to the deployment library.
  Following section 3, each pair of port names becomes an edge from the producer's
  output port to the consumer's input port, and the two operators join the graph.
\<close>

definition add_flow ::
  "operator \<Rightarrow> operator \<Rightarrow> (string \<times> string) list \<Rightarrow> application \<Rightarrow> application" where
  "add_flow src dst port_pairs app =
     \<lparr>operators = add_operator dst (add_operator src (operators app)),
      flows = flows app @
        map (\<lambda>(out_port, in_port). ((op_name src, out_port), (op_name dst, in_port))) port_pairs\<rparr>"

definition Rules_Text :: string where
  "Rules_Text =
     ''\<newline>{\<newline>    \"selections\": [\<newline>        {\<newline>            \"name\": \"CT Series\",\<newline>            \"conditions\": {\<newline>                \"Modality\": \"CT\"\<newline>            }\<newline>        }\<newline>    ]\<newline>}\<newline>''"

text \<open>The operators that \<open>compose\<close> constructs, under the names of its local variables.\<close>

definition model_info :: kwarg where
  "model_info = KModelInfo ''J. Wasserthal'' ''TotalSegmentator'' ''0.0.1'' []"

definition loader :: "path \<Rightarrow> operator" where
  "loader sample_data_path =
     \<lparr>op_class = ''DICOMDataLoaderOperator'', op_name = ''dicom_loader'',
      op_count = Some 1, op_kwargs = [(''input_folder'', KPath sample_data_path)]\<rparr>"

definition selector :: operator where
  "selector =
     \<lparr>op_class = ''DICOMSeriesSelectorOperator'', op_name = ''series_selector'',
      op_count = None, op_kwargs = []\<rparr>"

definition pdf_to_dcm :: "path \<Rightarrow> operator" where
  "pdf_to_dcm output_data_path =
     \<lparr>op_class = ''DICOMEncapsulatedPDFWriterOperator'', op_name = ''pdf_dcm_encapsulator'',
      op_count = None,
      op_kwargs =
        [(''output_folder'', KPath output_data_path),
         (''model_info'', model_info),
         (''custom_tags'',
           KTags [(''SeriesDescription'', ''TotalSegmentator Report: Organ volumes'')])]\<rparr>"

definition totalseg_op :: operator where
  "totalseg_op =
     \<lparr>op_class = ''TotalsegmentatorOperator'', op_name = ''totalseg_op'',
      op_count = None, op_kwargs = []\<rparr>"

definition pdf_op :: operator where
  "pdf_op =
     \<lparr>op_class = ''TotalsegmentatorPDFOperator'', op_name = ''totalseg_pdf_op'',
      op_count = None, op_kwargs = []\<rparr>"

definition compose :: "path \<Rightarrow> path \<Rightarrow> application" where
  "compose sample_data_path output_data_path =
     foldl (\<lambda>app (src, dst, port_pairs). add_flow src dst port_pairs app)
       \<lparr>operators = [], flows = []\<rparr>
       [(loader sample_data_path, selector,
           [(''dicom_study_list'', ''dicom_study_list'')]),
        (selector, totalseg_op,
           [(''study_selected_series_list'', ''study_selected_series_list'')]),
        (totalseg_op, pdf_op,
           [(''report_dict'', ''report_dict'')]),
        (selector, pdf_to_dcm output_data_path,
           [(''study_selected_series_list'', ''study_selected_series_list'')]),
        (pdf_op, pdf_to_dcm output_data_path,
           [(''pdf_bytes'', ''pdf_bytes'')])]"

subsection \<open>What each operator of the application computes\<close>

definition raise :: "exn \<Rightarrow> fsys \<Rightarrow> outcome" where
  "raise e fs = \<lparr>fault = Some e, emitted = [], after = fs\<rparr>"

text \<open>
  The two operators of this repository run the \<open>compute\<close> of their class on the value
  received; the three library operators run the function the host gives for them, on
  the ports that \<open>compose\<close> binds.  \<open>op_input.receive\<close> is the parameter \<open>receive\<close>.
  An operator is started only when its bound ports hold values, and in the application
  each port holds what its producer emits; the remaining branches are never taken
  there.  A value that is not a \<open>dict\<close> is to the formatter what \<open>None\<close> is.
\<close>

definition behaviour ::
  "host \<Rightarrow> runtime \<Rightarrow> operator \<Rightarrow> (string \<Rightarrow> payload option) \<Rightarrow> fsys \<Rightarrow> outcome" where
  "behaviour h rt op receive fs =
     (if op_class op = ''TotalsegmentatorOperator'' then
        (case receive ''study_selected_series_list'' of
           Some (SelectedSeriesList data_in) \<Rightarrow> totalseg_compute h data_in fs
         | _ \<Rightarrow> raise TypeError fs)
      else if op_class op = ''TotalsegmentatorPDFOperator'' then
        (case receive ''report_dict'' of
           Some (ReportDict report_dict) \<Rightarrow> pdf_compute rt report_dict fs
         | _ \<Rightarrow> pdf_compute rt JNull fs)
      else if op_class op = ''DICOMDataLoaderOperator'' then
        (case load_studies h (op_kwargs op) fs of
           Inl e \<Rightarrow> raise e fs
         | Inr studies \<Rightarrow>
             \<lparr>fault = None, emitted = [(StudyList studies, ''dicom_study_list'')], after = fs\<rparr>)
      else if op_class op = ''DICOMSeriesSelectorOperator'' then
        (case receive ''dicom_study_list'' of
           Some (StudyList studies) \<Rightarrow>
             (case select_series h (op_kwargs op) studies of
                Inl e \<Rightarrow> raise e fs
              | Inr selection \<Rightarrow>
                  \<lparr>fault = None,
                   emitted = [(SelectedSeriesList selection, ''study_selected_series_list'')],
                   after = fs\<rparr>)
         | _ \<Rightarrow> raise TypeError fs)
      else if op_class op = ''DICOMEncapsulatedPDFWriterOperator'' then
        (case (receive ''study_selected_series_list'', receive ''pdf_bytes'') of
           (Some (SelectedSeriesList selection), Some (PdfBytes pdf_bytes)) \<Rightarrow>
             (case write_pdf_dcm h (op_kwargs op) selection pdf_bytes fs of
                (e, fs') \<Rightarrow> \<lparr>fault = e, emitted = [], after = fs'\<rparr>)
         | _ \<Rightarrow> raise TypeError fs)
      else raise TypeError fs)"

subsection \<open>The executor\<close>

text \<open>
  Modelled from the spec: the executor is the deployment library's.  Section 4.1 gives
  its rules.  Readiness: a stage is eligible when every input port that has an incoming
  edge has received a value (and so at once when it has none).  Scheduling: the stages
  run in a topological order of the graph, which the order of \<open>operators\<close> is for the
  application.  Emission: an emitted value goes to every edge bound to that output
  port; a port never emitted on leaves its edges unfired.  Failure propagation: a fault
  raised by a stage aborts the run.  Every stage is visited once, which is all that the
  count of 1 on the loader allows in a graph without cycles.  The run records every
  invocation with the values received.
\<close>

type_synonym inbox = "((string \<times> string) \<times> payload) list"

record run =
  pending :: inbox
  files :: fsys
  trace :: "(string \<times> (string \<times> payload) list) list"
  aborted :: "(string \<times> exn) option"

definition bound_inputs :: "edge list \<Rightarrow> string \<Rightarrow> string list" where
  "bound_inputs edges stage = map (snd \<circ> snd) (filter (\<lambda>e. fst (snd e) = stage) edges)"

definition ready :: "edge list \<Rightarrow> inbox \<Rightarrow> string \<Rightarrow> bool" where
  "ready edges box stage =
     list_all (\<lambda>port. map_of box (stage, port) \<noteq> None) (bound_inputs edges stage)"

definition received :: "edge list \<Rightarrow> inbox \<Rightarrow> string \<Rightarrow> (string \<times> payload) list" where
  "received edges box stage =
     concat (map (\<lambda>port. case map_of box (stage, port) of None \<Rightarrow> [] | Some v \<Rightarrow> [(port, v)])
       (bound_inputs edges stage))"

definition deliver :: "edge list \<Rightarrow> string \<Rightarrow> (payload \<times> string) list \<Rightarrow> inbox \<Rightarrow> inbox" where
  "deliver edges stage emissions box =
     box @ concat (map (\<lambda>(v, port).
       map (\<lambda>e. (snd e, v)) (filter (\<lambda>e. fst e = (stage, port)) edges)) emissions)"

fun run_stages ::
  "(operator \<Rightarrow> (string \<Rightarrow> payload option) \<Rightarrow> fsys \<Rightarrow> outcome) \<Rightarrow> edge list \<Rightarrow>
     operator list \<Rightarrow> run \<Rightarrow> run" where
  "run_stages compute edges [] r = r"
| "run_stages compute edges (op # ops) r =
     (if aborted r \<noteq> None then r
      else if \<not> ready edges (pending r) (op_name op) then run_stages compute edges ops r
      else
        (let out = compute op (\<lambda>port. map_of (pending r) (op_name op, port)) (files r);
             r' = r\<lparr>files := after out,
                    trace := trace r @ [(op_name op, received edges (pending r) (op_name op))]\<rparr>
         in case fault out of
              Some e \<Rightarrow> r'\<lparr>aborted := Some (op_name op, e)\<rparr>
            | None \<Rightarrow>
                run_stages compute edges ops
                  (r'\<lparr>pending := deliver edges (op_name op) (emitted out) (pending r)\<rparr>)))"

definition run_app :: "host \<Rightarrow> runtime \<Rightarrow> application \<Rightarrow> fsys \<Rightarrow> run" where
  "run_app h rt app fs =
     run_stages (behaviour h rt) (flows app) (operators app)
       \<lparr>pending = [], files = fs, trace = [], aborted = None\<rparr>"

text \<open>An order of the stages is topological when every edge leads forward in it.\<close>

definition position :: "string \<Rightarrow> operator list \<Rightarrow> nat" where
  "position stage ops = length (takeWhile (\<lambda>op. op_name op \<noteq> stage) ops)"

definition topological :: "application \<Rightarrow> bool" where
  "topological app =
     list_all (\<lambda>e. position (fst (fst e)) (operators app) < position (fst (snd e)) (operators app)
                    \<and> position (fst (snd e)) (operators app) < length (operators app))
       (flows app)"


subsection \<open>Notions used to state the properties\<close>

text \<open>
  A data row is acceptable for an entry when it pairs the capitalized organ name with
  one of the two sentinels or with the formatted volume of that entry.
\<close>

definition cell_ok :: "runtime \<Rightarrow> string \<times> json \<Rightarrow> string list \<Rightarrow> bool" where
  "cell_ok rt item row =
     (case item of (organ, details) \<Rightarrow>
        row = [capitalize rt organ, ''Missing Data'']
      \<or> row = [capitalize rt organ, ''Invalid Data'']
      \<or> (case details of
            JDict d \<Rightarrow>
              (case map_of d ''volume'' of
                 Some v \<Rightarrow>
                   (case py_float rt v of
                      Inr x \<Rightarrow> row = [capitalize rt organ, fmt_2f (truediv_1000 x)]
                    | Inl e \<Rightarrow> False)
               | None \<Rightarrow> False)
          | JNull \<Rightarrow> False | JBool b \<Rightarrow> False | JInt i \<Rightarrow> False | JFloat f \<Rightarrow> False
          | JStr s \<Rightarrow> False | JList xs \<Rightarrow> False))"

text \<open>An entry without a usable volume: its row is one of the two sentinel rows.\<close>

definition unusable :: "runtime \<Rightarrow> string \<times> json \<Rightarrow> bool" where
  "unusable rt item =
     (case item of (organ, details) \<Rightarrow>
        organ_row rt organ details = Inr (missing_row rt organ)
      \<or> organ_row rt organ details = Inr (invalid_row rt organ))"

definition nonempty_mapping :: "json \<Rightarrow> bool" where
  "nonempty_mapping data =
     (case data of
        JDict items \<Rightarrow> items \<noteq> []
      | JNull \<Rightarrow> False | JBool b \<Rightarrow> False | JInt i \<Rightarrow> False | JFloat f \<Rightarrow> False
      | JStr s \<Rightarrow> False | JList xs \<Rightarrow> False)"

definition explanatory_story :: "runtime \<Rightarrow> flowable list" where
  "explanatory_story rt =
     report_head (clock rt) @
       [Paragraph ''No valid organ volume data available to display.'' normal_style]"

definition table_story :: "runtime \<Rightarrow> string list list \<Rightarrow> flowable list" where
  "table_story rt rows =
     report_head (clock rt) @ [Table (table_header # rows) col_widths, Spacer 1 (5 / 10 * inch)]"

fun story_of :: "plan \<Rightarrow> flowable list" where
  "story_of (Explanatory story) = story"
| "story_of (WithTable story) = story"

text \<open>
  Two invocations on the same input get the same from the rendering library: where both
  reach \<open>doc.build\<close>, it returns the same for the two stories.
\<close>

definition same_rendering :: "runtime \<Rightarrow> runtime \<Rightarrow> json \<Rightarrow> bool" where
  "same_rendering rt1 rt2 data =
     (case data of
        JDict items \<Rightarrow>
          (if items = [] then True
           else
             (case report_plan rt1 items of
                Inl e1 \<Rightarrow> True
              | Inr p1 \<Rightarrow>
                  (case report_plan rt2 items of
                     Inl e2 \<Rightarrow> True
                   | Inr p2 \<Rightarrow> render rt1 (story_of p1) = render rt2 (story_of p2))))
      | JNull \<Rightarrow> True | JBool b \<Rightarrow> True | JInt i \<Rightarrow> True | JFloat f \<Rightarrow> True
      | JStr s \<Rightarrow> True | JList xs \<Rightarrow> True)"

fun with_story :: "(flowable list \<Rightarrow> flowable list) \<Rightarrow> plan \<Rightarrow> plan" where
  "with_story f (Explanatory story) = Explanatory (f story)"
| "with_story f (WithTable story) = WithTable (f story)"

text \<open>
  The working area and the file system in which the executable is started: defined
  when the first selected series exists and all its instances were copied.
\<close>

definition staged :: "host \<Rightarrow> StudySelectedSeries list \<Rightarrow> fsys \<Rightarrow> (path \<times> fsys) option" where
  "staged h data_in fs =
     (let temp = mkdtemp h fs
      in case first_selected_series data_in of
           Inl e \<Rightarrow> None
         | Inr s \<Rightarrow>
             (case copy_instances (sop_filenames s) temp (fs(temp \<mapsto> Dir)) of
                (Inl e, fs') \<Rightarrow> None
              | (Inr u, fs') \<Rightarrow> Some (temp, fs')))"





definition stats_path :: "path \<Rightarrow> path" where
  "stats_path temp = temp @ ''/out'' @ ''/statistics.json''"

definition totalseg_argv :: "path \<Rightarrow> string list" where
  "totalseg_argv temp = split_space (totalseg_cmd temp (temp @ ''/out''))"


text \<open>
  Two assumptions on the host.  The name \<open>tempfile\<close> chooses is fresh: nothing exists
  at it or below it.  The executable is confined: started on the command line of the
  stage, it changes nothing outside the working area.
\<close>

definition fresh :: "host \<Rightarrow> fsys \<Rightarrow> bool" where
  "fresh h fs = (\<forall>p. is_under (mkdtemp h fs) p \<longrightarrow> fs p = None)"

definition confined :: "host \<Rightarrow> fsys \<Rightarrow> bool" where
  "confined h fs =
     (\<forall>fs1 p. \<not> is_under (mkdtemp h fs) p \<longrightarrow>
        snd (run_process h (totalseg_argv (mkdtemp h fs)) fs1) p = fs1 p)"

text \<open>
  The ways the executable's run fails, with the exception each raises: a non-zero exit
  status, no statistics file, a statistics file that is not JSON.
\<close>

definition segmentation_failure ::
  "host \<Rightarrow> path \<Rightarrow> (exn + int) \<Rightarrow> fsys \<Rightarrow> exn \<Rightarrow> bool" where
  "segmentation_failure h temp status fs2 e =
     ((\<exists>code. status = Inr code \<and> code \<noteq> 0 \<and> e = CalledProcessError code)
      \<or> (status = Inr 0 \<and> fs2 (stats_path temp) = None \<and> e = FileNotFoundError)
      \<or> (status = Inr 0 \<and> e = JSONDecodeError
          \<and> (\<exists>text. fs2 (stats_path temp) = Some (File text) \<and> json_loads h text = None)))"


subsection \<open>A sample environment\<close>

text \<open>
  A renderer that writes the text of every block in order and then its stamp, one that
  always raises, and a runtime built from the first: concrete surroundings on which the statements below
  are evaluated.
\<close>

fun flowable_text :: "flowable \<Rightarrow> string" where
  "flowable_text (Paragraph t s) = t"
| "flowable_text (Spacer w h) = []"
| "flowable_text (Table rows widths) = concat (concat rows)"

definition text_renderer :: "string \<Rightarrow> flowable list \<Rightarrow> exn + bytes" where
  "text_renderer stamp story = Inr (concat (map flowable_text story) @ stamp)"

text \<open>A renderer that writes the cells of the tables only, and no stamp.\<close>

fun flowable_cells :: "flowable \<Rightarrow> string" where
  "flowable_cells (Paragraph t s) = []"
| "flowable_cells (Spacer w h) = []"
| "flowable_cells (Table rows widths) = concat (concat rows)"

definition cells_renderer :: "string \<Rightarrow> flowable list \<Rightarrow> exn + bytes" where
  "cells_renderer stamp story = Inr (concat (map flowable_cells story))"

definition failing_renderer :: "string \<Rightarrow> flowable list \<Rightarrow> exn + bytes" where
  "failing_renderer stamp story = Inl (LibraryError ''LayoutError'')"

definition sample_runtime :: runtime where
  "sample_runtime =
     \<lparr>clock = ''2024-01-01 12:00:00'', build_stamp = '' (id 5f2a)'',
      str_to_float = (\<lambda>s. None), str_capitalize = (\<lambda>s. s), doc_build = text_renderer\<rparr>"

definition spleen_only :: "(string \<times> json) list" where
  "spleen_only = [(''spleen'', JDict [(''volume'', JFloat (Finite 377109))])]"

text \<open>Two entries, the second with an integer volume of \<open>2\<^sup>1\<^sup>0\<^sup>2\<^sup>4\<close>.\<close>

definition huge_volume :: int where
  "huge_volume = 2 ^ 1024"

definition overflow_entries :: "(string \<times> json) list" where
  "overflow_entries =
     [(''spleen'', JDict [(''volume'', JFloat (Finite 377109))]),
      (''liver'', JDict [(''volume'', JInt huge_volume)])]"

definition intensity_only :: "(string \<times> json) list" where
  "intensity_only = [(''x'', JDict [(''intensity'', JInt 1)])]"

definition mixed_entries :: "(string \<times> json) list" where
  "mixed_entries =
     [(''spleen'', JDict [(''volume'', JFloat (Finite 377109)), (''intensity'', JFloat (Finite (9277547 / 100000)))]),
      (''invalid_organ'', JDict [(''intensity'', JFloat (Finite 100))]),
      (''another_invalid'', JStr ''not a dictionary''),
      (''bad_volume'', JDict [(''volume'', JNull)])]"

text \<open>
  A host for the operators: a study of one CT series with two instances on disk, a
  selector that selects it, a stub executable that exits with a given status after
  writing a given text as \<open>statistics.json\<close> into the directory named last on its
  command line, a parser that knows two documents, and a writer that stores nothing.
\<close>

definition sample_series :: DICOMSeries where
  "sample_series = \<lparr>series_uid = ''1.2.840.1'', sop_filenames = [''/data/ct/1.dcm'', ''/data/ct/2.dcm'']\<rparr>"

definition other_series :: DICOMSeries where
  "other_series = \<lparr>series_uid = ''1.2.840.2'', sop_filenames = [''/data/mr/9.dcm'']\<rparr>"

definition sample_selection :: "StudySelectedSeries list" where
  "sample_selection =
     [\<lparr>study_uid = ''1.2.840'',
       selected_series = [\<lparr>selection_name = ''CT Series'', series = sample_series\<rparr>]\<rparr>]"

definition sample_studies :: "DICOMStudy list" where
  "sample_studies = [\<lparr>study_instance_uid = ''1.2.840'', all_series = [sample_series, other_series]\<rparr>]"

definition sample_fs :: fsys where
  "sample_fs =
     (Map.empty(''/data/ct/1.dcm'' \<mapsto> File ''dcm1'', ''/data/ct/2.dcm'' \<mapsto> File ''dcm2'',
        ''/data/mr/9.dcm'' \<mapsto> File ''dcm3''))"

definition stub_segmenter :: "int \<Rightarrow> bytes option \<Rightarrow> string list \<Rightarrow> fsys \<Rightarrow> (exn + int) \<times> fsys" where
  "stub_segmenter status statistics argv fs =
     (Inr status,
      (case statistics of
         None \<Rightarrow> fs
       | Some text \<Rightarrow> fs(last argv @ ''/statistics.json'' \<mapsto> File text)))"

definition sample_json_loads :: "bytes \<Rightarrow> json option" where
  "sample_json_loads text =
     (if text = ''{}'' then Some (JDict [])
      else if text = ''{\"spleen\": {\"volume\": 377109.0}}'' then Some (JDict spleen_only)
      else None)"

definition sample_host :: "int \<Rightarrow> bytes option \<Rightarrow> host" where
  "sample_host status statistics =
     \<lparr>mkdtemp = (\<lambda>fs. ''/tmp/tmpa1b2''),
      run_process = stub_segmenter status statistics,
      json_loads = sample_json_loads,
      load_studies = (\<lambda>kwargs fs. Inr sample_studies),
      select_series = (\<lambda>kwargs studies. Inr sample_selection),
      write_pdf_dcm = (\<lambda>kwargs selection pdf_bytes fs. (None, fs))\<rparr>"




definition staged_fs :: fsys where
  "staged_fs =
     sample_fs(''/tmp/tmpa1b2'' \<mapsto> Dir, ''/tmp/tmpa1b2/1.dcm'' \<mapsto> File ''dcm1'',
       ''/tmp/tmpa1b2/2.dcm'' \<mapsto> File ''dcm2'')"


definition mixed_story :: "flowable list" where
  "mixed_story =
     table_story sample_runtime
       [[''Spleen'', ''377.11''], [''Invalid_organ'', ''Missing Data''],
        [''Another_invalid'', ''Missing Data''], [''Bad_volume'', ''Invalid Data'']]"


section \<open>Properties of the report formatter\<close>

subsection \<open>Rounding\<close>

text \<open>
  The error of the two roundings: to the nearest integer, and to the nearest binary64
  value (relative error \<open>2\<^sup>-\<^sup>5\<^sup>3\<close>, or half the subnormal quantum).
\<close>

lemma round_half_even_error: "\<bar>of_int (round_half_even x) - x\<bar> \<le> 1 / 2"
proof -
  have "of_int \<lfloor>x\<rfloor> \<le> x" "x < of_int \<lfloor>x\<rfloor> + 1" by linarith+
  then show ?thesis
    by (auto simp: round_half_even_def Let_def)
qed

lemma round_half_even_nonneg: "0 \<le> x \<Longrightarrow> 0 \<le> round_half_even x"
  by (auto simp: round_half_even_def Let_def)

lemma pow2_powi: "pow2 e = 2 powi e"
  by (simp add: pow2_def power_int_def field_simps)

lemma pow2_pos: "0 < pow2 e"
  by (simp add: pow2_powi)

lemma bit_length_bounds:
  "0 < n \<Longrightarrow> 2 ^ (bit_length n - 1) \<le> n \<and> n < 2 ^ bit_length n"
proof (induction n rule: bit_length.induct)
  case (1 n)
  show ?case
  proof (cases "n div 2 = 0")
    case True
    with 1(2) have "n = 1" by (simp add: div_eq_0_iff) 
    then show ?thesis by (simp add: bit_length.simps)
  next
    case False
    then have pos: "0 < n div 2" by simp
    from 1(1) [OF _ pos] 1(2) have ih: "2 ^ (bit_length (n div 2) - 1) \<le> n div 2"
      "n div 2 < 2 ^ bit_length (n div 2)" by simp_all
    have bl: "bit_length n = Suc (bit_length (n div 2))" using 1(2) by (simp add: bit_length.simps)
    have blpos: "0 < bit_length (n div 2)" using pos by (simp add: bit_length.simps)
    then obtain k where k: "bit_length (n div 2) = Suc k" by (cases "bit_length (n div 2)") auto
    from ih k have "2 * 2 ^ k \<le> 2 * (n div 2)" by simp
    then have lo: "2 ^ (bit_length n - 1) \<le> n" using bl k by simp
    from ih have "n div 2 + 1 \<le> 2 ^ bit_length (n div 2)" by simp
    then have "2 * (n div 2) + 2 \<le> 2 * 2 ^ bit_length (n div 2)" by simp
    then have hi: "n < 2 ^ bit_length n" using bl by simp
    from lo hi show ?thesis by simp
  qed
qed

lemma ilog2_bounds:
  assumes "0 < x"
  shows "pow2 (ilog2 x) \<le> x \<and> x < pow2 (ilog2 x + 1)"
proof (cases "1 \<le> x")
  case True
  define n where "n = nat \<lfloor>x\<rfloor>"
  from True have fl: "1 \<le> \<lfloor>x\<rfloor>" by simp
  then have npos: "0 < n" and n: "int n = \<lfloor>x\<rfloor>" by (simp_all add: n_def)
  from bit_length_bounds [OF npos] have b: "2 ^ (bit_length n - 1) \<le> n" "n < 2 ^ bit_length n"
    by simp_all
  have blpos: "0 < bit_length n" using npos by (simp add: bit_length.simps)
  have il: "ilog2 x = int (bit_length n) - 1" using True by (simp add: ilog2_def n_def)
  have "(2::rat) ^ (bit_length n - 1) \<le> of_nat n" using b(1)
    by (metis of_nat_le_iff of_nat_numeral of_nat_power)
  also have "(of_nat n :: rat) = of_int \<lfloor>x\<rfloor>" using n by (metis of_int_of_nat_eq)
  also have "\<dots> \<le> x" by simp
  finally have lo: "(2::rat) ^ (bit_length n - 1) \<le> x" .
  have "x < of_int \<lfloor>x\<rfloor> + 1" by linarith
  also have "(of_int \<lfloor>x\<rfloor> + 1 :: rat) = of_nat (n + 1)"
  proof -
    have "(of_int \<lfloor>x\<rfloor> :: rat) = of_nat n" using n by (metis of_int_of_nat_eq)
    then show ?thesis by simp
  qed
  also have "\<dots> \<le> of_nat (2 ^ bit_length n)" using b(2) by (simp only: of_nat_le_iff)
  also have "\<dots> = (2::rat) ^ bit_length n" by simp
  finally have hi: "x < (2::rat) ^ bit_length n" .
  have e1: "pow2 (ilog2 x) = 2 ^ (bit_length n - 1)"
    using blpos by (simp add: il pow2_def nat_diff_distrib')
  have e2: "pow2 (ilog2 x + 1) = 2 ^ bit_length n"
    by (simp add: il pow2_def)
  from lo hi e1 e2 show ?thesis by simp
next
  case False
  then have x1: "x < 1" by simp
  define y where "y = 1 / x"
  have y1: "1 < y" using assms x1 by (simp add: y_def)
  define m where "m = nat (\<lceil>y\<rceil> - 1)"
  have cy: "2 \<le> \<lceil>y\<rceil>" using y1 by linarith
  then have mpos: "0 < m" and m: "int m = \<lceil>y\<rceil> - 1" by (simp_all add: m_def)
  from bit_length_bounds [OF mpos] have b: "2 ^ (bit_length m - 1) \<le> m" "m < 2 ^ bit_length m"
    by simp_all
  have blpos: "0 < bit_length m" using mpos by (simp add: bit_length.simps)
  have il: "ilog2 x = - int (bit_length m)" using False by (simp add: ilog2_def m_def y_def)
  have "y \<le> of_int \<lceil>y\<rceil>" by simp
  also have "(of_int \<lceil>y\<rceil> :: rat) = of_nat (m + 1)"
  proof -
    have "(of_int (\<lceil>y\<rceil> - 1) :: rat) = of_nat m" using m by (metis of_int_of_nat_eq)
    then show ?thesis by simp
  qed
  also have "\<dots> \<le> of_nat (2 ^ bit_length m)" using b(2) by (simp only: of_nat_le_iff)
  also have "\<dots> = (2::rat) ^ bit_length m" by simp
  finally have yhi: "y \<le> 2 ^ bit_length m" .
  have "(2::rat) ^ (bit_length m - 1) \<le> of_nat m" using b(1)
    by (metis of_nat_le_iff of_nat_numeral of_nat_power)
  also have "(of_nat m :: rat) = of_int (\<lceil>y\<rceil> - 1)" using m by (metis of_int_of_nat_eq)
  also have "\<dots> < y" by linarith
  finally have ylo: "(2::rat) ^ (bit_length m - 1) < y" .
  have lo: "1 / 2 ^ bit_length m \<le> x"
  proof -
    from yhi have "1 / x \<le> 2 ^ bit_length m" by (simp add: y_def)
    with assms show ?thesis by (simp add: field_simps)
  qed
  have hi: "x < 1 / 2 ^ (bit_length m - 1)"
  proof -
    from ylo have "2 ^ (bit_length m - 1) < 1 / x" by (simp add: y_def)
    with assms show ?thesis by (simp add: field_simps)
  qed
  have e1: "pow2 (ilog2 x) = 1 / 2 ^ bit_length m"
    using blpos by (simp add: il pow2_def)
  have e2: "pow2 (ilog2 x + 1) = 1 / 2 ^ (bit_length m - 1)"
  proof (cases "bit_length m = 1")
    case True
    then show ?thesis by (simp add: il pow2_def)
  next
    case False
    with blpos have "1 < bit_length m" by simp
    then have "nat (int (bit_length m) - 1) = bit_length m - 1" by simp
    with \<open>1 < bit_length m\<close> show ?thesis by (simp add: il pow2_def)
  qed
  from lo hi e1 e2 show ?thesis by simp
qed

lemma round_binary64_scaled:
  assumes "x \<noteq> 0"
  shows "\<bar>round_binary64 x - x\<bar> \<le> pow2 (max (ilog2 \<bar>x\<bar> - 52) (- 1074)) / 2"
proof -
  define e where "e = max (ilog2 \<bar>x\<bar> - 52) (- 1074)"
  define y where "y = x / pow2 e"
  have p: "0 < pow2 e" by (rule pow2_pos)
  have r: "round_binary64 x = of_int (round_half_even y) * pow2 e"
    using assms by (simp add: round_binary64_def e_def y_def Let_def)
  have x: "x = y * pow2 e" using p by (simp add: y_def)
  have "round_binary64 x - x = (of_int (round_half_even y) - y) * pow2 e"
    by (subst x, subst r) (simp add: algebra_simps)
  then have "\<bar>round_binary64 x - x\<bar> = \<bar>of_int (round_half_even y) - y\<bar> * pow2 e"
    using p by (simp add: abs_mult)
  also have "\<dots> \<le> 1 / 2 * pow2 e"
    using round_half_even_error [of y] p by (intro mult_right_mono) simp_all
  finally show ?thesis by (simp add: e_def)
qed

lemma pow2_diff_52: "pow2 (a - 52) = pow2 a / 2 ^ 52"
proof -
  have "pow2 (a - 52) = (2::rat) powi a / 2 powi 52"
    by (simp add: pow2_powi power_int_diff)
  then show ?thesis by (simp add: pow2_powi)
qed

lemma round_binary64_error:
  "\<bar>round_binary64 x - x\<bar> \<le> max (\<bar>x\<bar> / 2 ^ 53) (1 / 2 ^ 1075)"
proof (cases "x = 0")
  case True
  then show ?thesis by (simp add: round_binary64_def)
next
  case False
  then have pos: "0 < \<bar>x\<bar>" by simp
  show ?thesis
  proof (cases "- 1074 \<le> ilog2 \<bar>x\<bar> - 52")
    case True
    then have "max (ilog2 \<bar>x\<bar> - 52) (- 1074) = ilog2 \<bar>x\<bar> - 52" by simp
    with round_binary64_scaled [OF False]
    have "\<bar>round_binary64 x - x\<bar> \<le> pow2 (ilog2 \<bar>x\<bar>) / 2 ^ 52 / 2"
      by (simp add: pow2_diff_52)
    also have "\<dots> = pow2 (ilog2 \<bar>x\<bar>) / 2 ^ 53" by simp
    also have "\<dots> \<le> \<bar>x\<bar> / 2 ^ 53"
      using ilog2_bounds [OF pos] by (simp add: divide_right_mono)
    finally have "\<bar>round_binary64 x - x\<bar> \<le> \<bar>x\<bar> / 2 ^ 53" .
    then show ?thesis by (meson max.cobounded1 order_trans)
  next
    case False
    then have "max (ilog2 \<bar>x\<bar> - 52) (- 1074) = - 1074" by simp
    with round_binary64_scaled [OF \<open>x \<noteq> 0\<close>]
    have "\<bar>round_binary64 x - x\<bar> \<le> pow2 (- 1074) / 2" by simp
    also have "\<dots> = 1 / 2 ^ 1075" by (simp add: pow2_def)
    finally have "\<bar>round_binary64 x - x\<bar> \<le> 1 / 2 ^ 1075" .
    then show ?thesis by (meson max.cobounded2 order_trans)
  qed
qed

lemma round_binary64_nonneg:
  assumes "0 \<le> x"
  shows "0 \<le> round_binary64 x"
proof (cases "x = 0")
  case True
  then show ?thesis by (simp add: round_binary64_def)
next
  case False
  define e where "e = max (ilog2 \<bar>x\<bar> - 52) (- 1074)"
  have p: "0 < pow2 e" by (rule pow2_pos)
  with assms have "0 \<le> x / pow2 e" by simp
  then have "0 \<le> round_half_even (x / pow2 e)" by (rule round_half_even_nonneg)
  with p have "0 \<le> of_int (round_half_even (x / pow2 e)) * pow2 e" by simp
  with False show ?thesis by (simp add: round_binary64_def e_def Let_def)
qed

lemma fmt_2f_nonneg:
  assumes "0 \<le> r"
  shows "\<exists>n. fmt_2f (Finite r) = fixed2 n \<and> \<bar>of_nat n / 100 - r\<bar> \<le> 1 / 200"
proof -
  define k where "k = round_half_even (\<bar>r\<bar> * 100)"
  have k0: "0 \<le> k" unfolding k_def by (rule round_half_even_nonneg) simp
  have "\<bar>of_int k - r * 100\<bar> \<le> 1 / 2"
    using round_half_even_error [of "\<bar>r\<bar> * 100"] assms by (simp add: k_def)
  moreover have "(of_nat (nat k) :: rat) = of_int k" using k0 by simp
  ultimately have "\<bar>of_nat (nat k) / 100 - r\<bar> \<le> 1 / 200"
    by (simp add: field_simps abs_le_iff)
  moreover have "fmt_2f (Finite r) = fixed2 (nat k)"
    using assms by (simp add: fmt_2f_def k_def)
  ultimately show ?thesis by blast
qed

lemma formatted_volume_accuracy:
  assumes "0 \<le> q"
  shows "\<exists>n. fmt_2f (truediv_1000 (Finite q)) = fixed2 n
           \<and> \<bar>of_nat n / 100 - q / 1000\<bar> \<le> 1 / 200 + max (q / 1000 / 2 ^ 53) (1 / 2 ^ 1075)"
proof -
  define r where "r = round_binary64 (q / 1000)"
  have r0: "0 \<le> r" unfolding r_def using assms by (intro round_binary64_nonneg) simp
  have t: "truediv_1000 (Finite q) = Finite r"
    using assms by (simp add: truediv_1000_def r_def Let_def)
  from fmt_2f_nonneg [OF r0] obtain n where
    n: "fmt_2f (Finite r) = fixed2 n" "\<bar>of_nat n / 100 - r\<bar> \<le> 1 / 200" by blast
  have "\<bar>r - q / 1000\<bar> \<le> max (\<bar>q / 1000\<bar> / 2 ^ 53) (1 / 2 ^ 1075)"
    unfolding r_def by (rule round_binary64_error)
  moreover have "\<bar>q / 1000\<bar> = q / 1000" using assms by simp
  ultimately have "\<bar>r - q / 1000\<bar> \<le> max (q / 1000 / 2 ^ 53) (1 / 2 ^ 1075)" by simp
  with n(2) have "\<bar>of_nat n / 100 - q / 1000\<bar> \<le> 1 / 200 + max (q / 1000 / 2 ^ 53) (1 / 2 ^ 1075)"
    by linarith
  with n(1) t show ?thesis by auto
qed

text \<open>An \<open>int\<close> from \<open>2\<^sup>1\<^sup>0\<^sup>2\<^sup>4\<close> on does not convert: \<open>float\<close> raises \<open>OverflowError\<close>.\<close>

lemma pow2_mono: "a \<le> b \<Longrightarrow> pow2 a \<le> pow2 b"
  by (simp add: pow2_powi power_int_increasing)

lemma pow2_less_cancel: "pow2 a < pow2 b \<Longrightarrow> a < b"
  using pow2_mono [of b a] by (cases "a < b") auto

lemma round_half_even_ge: "of_int k \<le> y \<Longrightarrow> k \<le> round_half_even y"
proof -
  assume "of_int k \<le> y"
  then have "k \<le> \<lfloor>y\<rfloor>" by (simp add: le_floor_iff)
  then show ?thesis by (auto simp: round_half_even_def Let_def)
qed

lemma round_binary64_huge:
  assumes "2 ^ 1024 \<le> x"
  shows "2 ^ 1024 \<le> round_binary64 x"
proof -
  have p1024: "pow2 1024 = 2 ^ 1024" by (simp add: pow2_def)
  have pos: "0 < x" using assms by (meson less_le_trans zero_less_numeral zero_less_power)
  then have ax: "\<bar>x\<bar> = x" and nz: "x \<noteq> 0" by simp_all
  from ilog2_bounds [OF pos] have b: "pow2 (ilog2 x) \<le> x" "x < pow2 (ilog2 x + 1)" by simp_all
  from assms b(2) have "pow2 1024 < pow2 (ilog2 x + 1)" by (simp only: p1024)
  then have il: "1024 \<le> ilog2 x" using pow2_less_cancel by fastforce
  define e where "e = ilog2 x - 52"
  have emax: "max (ilog2 \<bar>x\<bar> - 52) (- 1074) = e" using il by (simp add: e_def ax)
  have pe: "0 < pow2 e" by (rule pow2_pos)
  have pil: "pow2 (ilog2 x) = 2 ^ 52 * pow2 e"
    using pow2_diff_52 [of "ilog2 x"] by (simp add: e_def)
  have "(of_int (2 ^ 52) :: rat) * pow2 e \<le> x" using b(1) pil by simp
  then have "(of_int (2 ^ 52) :: rat) \<le> x / pow2 e" using pe by (simp add: field_simps)
  then have "2 ^ 52 \<le> round_half_even (x / pow2 e)" by (rule round_half_even_ge)
  then have "(of_int (2 ^ 52) :: rat) \<le> of_int (round_half_even (x / pow2 e))"
    by (simp only: of_int_le_iff)
  then have "(of_int (2 ^ 52) :: rat) * pow2 e \<le> of_int (round_half_even (x / pow2 e)) * pow2 e"
    using pe by (intro mult_right_mono) simp_all
  moreover have "round_binary64 x = of_int (round_half_even (x / pow2 e)) * pow2 e"
    using nz emax by (simp add: round_binary64_def Let_def)
  moreover have "pow2 1024 \<le> pow2 (ilog2 x)" using il by (rule pow2_mono)
  ultimately have "pow2 1024 \<le> round_binary64 x" using pil by simp
  then show ?thesis by (simp only: p1024)
qed

lemma float_of_int_overflow: "2 ^ 1024 \<le> i \<Longrightarrow> float_of_int i = Inl OverflowError"
proof -
  assume "2 ^ 1024 \<le> i"
  then have "(of_int (2 ^ 1024) :: rat) \<le> of_int i" by (simp only: of_int_le_iff)
  then have "(2 :: rat) ^ 1024 \<le> of_int i" by simp
  from round_binary64_huge [OF this] have "2 ^ 1024 \<le> \<bar>round_binary64 (of_int i)\<bar>" by linarith
  then show ?thesis by (simp add: float_of_int_def Let_def)
qed

lemma huge_volume_raises:
  assumes "2 ^ 1024 \<le> i"
  shows "generate_pdf_report rt (JDict [(organ, JDict [(''volume'', JInt i)])]) = Inl OverflowError"
  using float_of_int_overflow [OF assms]
  by (simp add: generate_pdf_report_def report_plan_def organ_row_def py_float_def)

subsection \<open>Evaluating the arithmetic\<close>

lemma floor_rat_numeral:
  "\<lfloor>numeral a / numeral b :: rat\<rfloor> = numeral a div numeral b"
  using floor_divide_of_int_eq [of "numeral a" "numeral b", where ?'a = rat] by simp

lemma ilog2_spleen: "ilog2 (377109 / 1000) = 8"
  by (simp add: ilog2_def floor_rat_numeral bit_length.simps)

lemma round_binary64_spleen:
  "round_binary64 (377109 / 1000) = 6634171687023673 / 17592186044416"
  by (simp add: round_binary64_def ilog2_spleen pow2_def round_half_even_def floor_rat_numeral Let_def)

lemma truediv_spleen:
  "truediv_1000 (Finite 377109) = Finite (6634171687023673 / 17592186044416)"
  by (simp add: truediv_1000_def round_binary64_spleen)

lemma fmt_spleen: "fmt_2f (Finite (6634171687023673 / 17592186044416)) = ''377.11''"
  by (simp add: fmt_2f_def fixed2_def round_half_even_def floor_rat_numeral Let_def
      show_nat.simps digit_char_def)

lemma capitalize_spleen: "capitalize rt ''spleen'' = ''Spleen''"
  by (simp add: capitalize_def is_ascii_def ascii_capitalize_def to_upper_def to_lower_def
      letter_table_def)

subsection \<open>The loop over the entries\<close>

lemma organ_row_cases:
  "organ_row rt organ details = Inr (row, valid) \<Longrightarrow> cell_ok rt (organ, details) row"
  by (auto simp: organ_row_def cell_ok_def missing_row_def invalid_row_def Let_def
      split: json.splits option.splits sum.splits if_splits)

lemma table_loop_rows:
  "table_loop rt items table_data n = Inr (table_data', n') \<Longrightarrow>
     \<exists>rows. table_data' = table_data @ rows \<and> length rows = length items
       \<and> list_all2 (cell_ok rt) items rows"
proof (induction items arbitrary: table_data n)
  case Nil
  then show ?case by simp
next
  case (Cons item items)
  obtain organ details where item: "item = (organ, details)" by (cases item)
  from Cons.prems item obtain row valid where
    row: "organ_row rt organ details = Inr (row, valid)"
    and rest: "table_loop rt items (table_data @ [row])
                 (if valid then n + 1 else n) = Inr (table_data', n')"
    by (auto split: sum.splits)
  from Cons.IH [OF rest] obtain rows where
    rows: "table_data' = (table_data @ [row]) @ rows" "length rows = length items"
      "list_all2 (cell_ok rt) items rows"
    by blast
  have "cell_ok rt item row" using organ_row_cases [OF row] item by simp
  with rows show ?case
    by (intro exI [of _ "row # rows"]) simp
qed

lemma table_loop_unusable:
  "\<forall>item\<in>set items. unusable rt item \<Longrightarrow>
     \<exists>rows. table_loop rt items table_data n = Inr (table_data @ rows, n)"
proof (induction items arbitrary: table_data)
  case Nil
  then show ?case by simp
next
  case (Cons item items)
  obtain organ details where item: "item = (organ, details)" by (cases item)
  from Cons.prems item obtain row where
    row: "organ_row rt organ details = Inr (row, False)"
    by (auto simp: unusable_def missing_row_def invalid_row_def)
  from Cons.prems have "\<forall>item\<in>set items. unusable rt item" by simp
  from Cons.IH [OF this, of "table_data @ [row]"] obtain rows where
    "table_loop rt items (table_data @ [row]) n = Inr ((table_data @ [row]) @ rows, n)"
    by blast
  with row item show ?case
    by (intro exI [of _ "row # rows"]) simp
qed

lemma with_table_nonempty:
  "report_plan rt items = Inr (WithTable story) \<Longrightarrow> items \<noteq> []"
  by (auto simp: report_plan_def Let_def split: sum.splits if_splits)

lemma with_table_result:
  "report_plan rt items = Inr (WithTable story) \<Longrightarrow>
     generate_pdf_report rt (JDict items) =
       (case render rt story of Inl e \<Rightarrow> Inr None | Inr pdf_bytes \<Rightarrow> Inr (Some pdf_bytes))"
  using with_table_nonempty [of rt items story] by (simp add: generate_pdf_report_def)

lemma unusable_plan:
  assumes "items \<noteq> []" and "\<forall>item\<in>set items. unusable rt item"
  shows "report_plan rt items = Inr (Explanatory (explanatory_story rt))"
proof -
  from table_loop_unusable [OF assms(2), of "[table_header]" 0] obtain rows where
    "table_loop rt items [table_header] 0 = Inr ([table_header] @ rows, 0)" by blast
  with assms(1) show ?thesis
    by (simp add: report_plan_def explanatory_story_def Let_def)
qed

subsection \<open>The sample inputs\<close>

lemma spleen_plan:
  "report_plan rt spleen_only = Inr (WithTable (table_story rt [[''Spleen'', ''377.11'']]))"
  by (simp add: report_plan_def spleen_only_def organ_row_def py_float_def truediv_spleen
      fmt_spleen capitalize_spleen table_story_def Let_def)

lemma intensity_only_plan:
  "report_plan rt intensity_only = Inr (Explanatory (explanatory_story rt))"
  by (simp add: report_plan_def intensity_only_def organ_row_def missing_row_def
      explanatory_story_def Let_def)

lemma mixed_plan:
  "report_plan sample_runtime mixed_entries = Inr (WithTable mixed_story)"
  by (simp add: report_plan_def mixed_entries_def organ_row_def py_float_def truediv_spleen
      fmt_spleen missing_row_def invalid_row_def capitalize_def is_ascii_def
      ascii_capitalize_def to_upper_def to_lower_def
      letter_table_def table_story_def mixed_story_def Let_def)

subsection \<open>Rendering failures\<close>

text \<open>
  On the path that renders the table, \<open>doc.build\<close> stands inside \<open>try\<close>, and its
  failure becomes the result \<open>None\<close>.
\<close>

lemma render_failure_caught_on_table_path:
  "report_plan rt items = Inr (WithTable story) \<Longrightarrow> render rt story = Inl e \<Longrightarrow>
     generate_pdf_report rt (JDict items) = Inr None"
  by (simp add: with_table_result)

text \<open>
  Claim C3 says that a failure of the rendering library is turned into a null result on
  every path that reaches rendering, the explanatory-line path included.  On that path
  the call of \<open>doc.build\<close> (line 86) stands outside any \<open>try\<close>: for the input
  \<open>{"x": {"intensity": 1}}\<close> and a renderer that raises \<open>e\<close>, the exception \<open>e\<close>
  leaves \<open>generate_pdf_report\<close>.
\<close>

theorem render_failure_escapes_on_explanatory_path:
  "generate_pdf_report (rt\<lparr>doc_build := \<lambda>stamp story. Inl e\<rparr>) (JDict intensity_only) = Inl e"
  by (simp add: generate_pdf_report_def intensity_only_plan render_def)
     (simp add: intensity_only_def)

subsection \<open>Dependence on the invocation\<close>

lemma py_float_cong:
  "str_to_float rt1 = str_to_float rt2 \<Longrightarrow> py_float rt1 v = py_float rt2 v"
  by (cases v) (simp_all add: py_float_def)

lemma capitalize_cong:
  "str_capitalize rt1 = str_capitalize rt2 \<Longrightarrow> capitalize rt1 s = capitalize rt2 s"
  by (simp add: capitalize_def)

lemma organ_row_cong:
  assumes "str_to_float rt1 = str_to_float rt2" and "str_capitalize rt1 = str_capitalize rt2"
  shows "organ_row rt1 organ details = organ_row rt2 organ details"
  by (simp add: organ_row_def missing_row_def invalid_row_def py_float_cong [OF assms(1)]
      capitalize_cong [OF assms(2)] split: json.splits option.splits sum.splits)

lemma table_loop_cong:
  assumes "str_to_float rt1 = str_to_float rt2" and "str_capitalize rt1 = str_capitalize rt2"
  shows "table_loop rt1 items table_data n = table_loop rt2 items table_data n"
  by (induction items arbitrary: table_data n)
     (auto simp: organ_row_cong [OF assms] split: sum.splits)

text \<open>
  Claim C4 as stated, that two invocations on the same input produce the same bytes,
  fails: one second later the same statistics give another report, and so they do at
  the same clock reading when the rendering library draws another stamp.
\<close>

theorem reports_differ_in_time:
  "generate_pdf_report (sample_runtime\<lparr>clock := ''2024-01-01 12:00:00''\<rparr>) (JDict spleen_only)
     \<noteq> generate_pdf_report (sample_runtime\<lparr>clock := ''2024-01-01 12:00:01''\<rparr>) (JDict spleen_only)
   \<and> generate_pdf_report (sample_runtime\<lparr>build_stamp := '' (id 5f2a)''\<rparr>) (JDict spleen_only)
     \<noteq> generate_pdf_report (sample_runtime\<lparr>build_stamp := '' (id 77c1)''\<rparr>) (JDict spleen_only)"
  by (simp add: generate_pdf_report_def spleen_plan render_def)
     (simp add: spleen_only_def sample_runtime_def text_renderer_def table_story_def report_head_def)

text \<open>
  Claim C4, amended: the result of the formatter is not a function of the statistics
  alone; it is determined by the statistics together with the time of the invocation
  and what the rendering library returns.  For the same statistics (and the same
  conversion to float and capitalization), two invocations raise the same exception
  before rendering, or build the same kind of report with the same blocks except the
  third, the paragraph of the generation timestamp; and their results (null, bytes or
  exception) are equal whenever \<open>doc.build\<close> returns the same for the two stories.
\<close>

theorem result_depends_on_time_and_rendering:
  assumes "str_to_float rt1 = str_to_float rt2" and "str_capitalize rt1 = str_capitalize rt2"
  shows "map_sum id (with_story (\<lambda>story. story[2 := b])) (report_plan rt1 items) =
         map_sum id (with_story (\<lambda>story. story[2 := b])) (report_plan rt2 items)
       \<and> (same_rendering rt1 rt2 data \<longrightarrow>
            generate_pdf_report rt1 data = generate_pdf_report rt2 data)"
proof (intro conjI impI)
  show "map_sum id (with_story (\<lambda>story. story[2 := b])) (report_plan rt1 items) =
         map_sum id (with_story (\<lambda>story. story[2 := b])) (report_plan rt2 items)"
    by (simp add: report_plan_def table_loop_cong [OF assms] report_head_def Let_def
        split: sum.splits)
  assume "same_rendering rt1 rt2 data"
  then show "generate_pdf_report rt1 data = generate_pdf_report rt2 data"
    by (cases data)
       (auto simp: generate_pdf_report_def same_rendering_def report_plan_def
          table_loop_cong [OF assms] Let_def split: sum.splits if_splits)
qed

theorem result_depends_on_time_and_rendering_witness:
  "str_to_float (sample_runtime\<lparr>doc_build := cells_renderer\<rparr>) =
     str_to_float (sample_runtime\<lparr>clock := ''2024-01-01 12:00:01'', build_stamp := '' (id 77c1)'',
       doc_build := cells_renderer\<rparr>)
   \<and> str_capitalize (sample_runtime\<lparr>doc_build := cells_renderer\<rparr>) =
     str_capitalize (sample_runtime\<lparr>clock := ''2024-01-01 12:00:01'', build_stamp := '' (id 77c1)'',
       doc_build := cells_renderer\<rparr>)
   \<and> same_rendering (sample_runtime\<lparr>doc_build := cells_renderer\<rparr>)
        (sample_runtime\<lparr>clock := ''2024-01-01 12:00:01'', build_stamp := '' (id 77c1)'',
          doc_build := cells_renderer\<rparr>) (JDict spleen_only)
   \<and> generate_pdf_report (sample_runtime\<lparr>doc_build := cells_renderer\<rparr>) (JDict spleen_only) =
       generate_pdf_report
         (sample_runtime\<lparr>clock := ''2024-01-01 12:00:01'', build_stamp := '' (id 77c1)'',
            doc_build := cells_renderer\<rparr>) (JDict spleen_only)"
proof -
  let ?rt1 = "sample_runtime\<lparr>doc_build := cells_renderer\<rparr>"
  let ?rt2 = "sample_runtime\<lparr>clock := ''2024-01-01 12:00:01'', build_stamp := '' (id 77c1)'',
       doc_build := cells_renderer\<rparr>"
  have f: "str_to_float ?rt1 = str_to_float ?rt2" by simp
  have c: "str_capitalize ?rt1 = str_capitalize ?rt2" by simp
  have r: "same_rendering ?rt1 ?rt2 (JDict spleen_only)"
    by (simp add: same_rendering_def spleen_plan render_def cells_renderer_def table_story_def
        report_head_def)
  show ?thesis
    using f c r result_depends_on_time_and_rendering [OF f c, of _ _ "JDict spleen_only"]
    by blast
qed

subsection \<open>Rows of the table\<close>

text \<open>
  When the report is built with a table (it is not replaced by the explanatory line),
  the table consists of the header and exactly one data row per entry of the input, in
  the order of the entries; each data row pairs the capitalized organ name with the
  formatted volume of the entry, with \<open>Missing Data\<close> or with \<open>Invalid Data\<close>; and
  this story is what the function renders.
\<close>

lemma table_has_row_per_entry:
  assumes "report_plan rt items = Inr (WithTable story)"
  shows "\<exists>rows. story = table_story rt rows \<and> length rows = length items
           \<and> list_all2 (cell_ok rt) items rows
           \<and> generate_pdf_report rt (JDict items) =
               (case render rt story of
                  Inl e \<Rightarrow> Inr None | Inr pdf_bytes \<Rightarrow> Inr (Some pdf_bytes))"
proof -
  from assms obtain table_data n where
    loop: "table_loop rt items [table_header] 0 = Inr (table_data, n)"
    and story: "story = report_head (clock rt) @ [Table table_data col_widths, Spacer 1 (5 / 10 * inch)]"
    by (auto simp: report_plan_def Let_def split: sum.splits if_splits)
  from table_loop_rows [OF loop] obtain rows where
    rows: "table_data = [table_header] @ rows" "length rows = length items"
      "list_all2 (cell_ok rt) items rows"
    by blast
  from story rows(1) have "story = table_story rt rows"
    by (simp add: table_story_def)
  with rows with_table_result [OF assms] show ?thesis by blast
qed

lemma table_has_row_per_entry_sample:
  "report_plan sample_runtime mixed_entries = Inr (WithTable mixed_story)
   \<and> (\<exists>rows. mixed_story = table_story sample_runtime rows
         \<and> length rows = length mixed_entries
         \<and> list_all2 (cell_ok sample_runtime) mixed_entries rows
         \<and> generate_pdf_report sample_runtime (JDict mixed_entries) =
              (case render sample_runtime mixed_story of
                 Inl e \<Rightarrow> Inr None | Inr pdf_bytes \<Rightarrow> Inr (Some pdf_bytes)))"
proof -
  have h: "report_plan sample_runtime mixed_entries = Inr (WithTable mixed_story)"
    by (rule mixed_plan)
  show ?thesis using h table_has_row_per_entry [OF h] by blast
qed

text \<open>
  Claim C5 says that every input mapping with K entries gives a table of exactly K data
  rows, an entry whose volume does not convert getting the row \<open>Invalid Data\<close>, unless
  the table is replaced by the explanatory line.  The loop catches \<open>ValueError\<close> and
  \<open>TypeError\<close> only (line 75): for a mapping of two entries, the second with the
  integer volume \<open>2\<^sup>1\<^sup>0\<^sup>2\<^sup>4\<close>, \<open>float\<close> raises \<open>OverflowError\<close>, and the exception
  leaves \<open>generate_pdf_report\<close>: no report and no row is produced, neither for that
  entry nor for the valid one.
\<close>

theorem overflowing_volume_escapes:
  "length overflow_entries = 2
   \<and> huge_volume = 2 ^ 1024
   \<and> organ_row rt ''liver'' (JDict [(''volume'', JInt huge_volume)]) = Inl OverflowError
   \<and> report_plan rt overflow_entries = Inl OverflowError
   \<and> generate_pdf_report rt (JDict overflow_entries) = Inl OverflowError"
proof -
  have o: "float_of_int huge_volume = Inl OverflowError"
    by (rule float_of_int_overflow) (simp add: huge_volume_def)
  have r: "organ_row rt ''liver'' (JDict [(''volume'', JInt huge_volume)]) = Inl OverflowError"
    by (simp add: organ_row_def py_float_def o)
  have s: "organ_row rt ''spleen'' (JDict [(''volume'', JFloat (Finite 377109))]) =
      Inr ([''Spleen'', ''377.11''], True)"
    by (simp add: organ_row_def py_float_def truediv_spleen fmt_spleen capitalize_spleen)
  have p: "report_plan rt overflow_entries = Inl OverflowError"
    by (simp add: report_plan_def overflow_entries_def r s)
  have n: "overflow_entries \<noteq> []" by (simp add: overflow_entries_def)
  have l: "length overflow_entries = 2" by (simp add: overflow_entries_def)
  have g: "generate_pdf_report rt (JDict overflow_entries) = Inl OverflowError"
    using p n by (simp add: generate_pdf_report_def)
  from l r p g show ?thesis by (simp add: huge_volume_def)
qed

subsection \<open>Null results and the explanatory line\<close>

text \<open>
  Claim C6 as stated, that the result is null exactly when the input is empty or not a
  mapping, fails: a non-empty mapping with a usable volume gives the null result when
  the rendering of its table raises.
\<close>

theorem null_for_nonempty_mapping:
  "nonempty_mapping (JDict spleen_only)
   \<and> generate_pdf_report (sample_runtime\<lparr>doc_build := failing_renderer\<rparr>) (JDict spleen_only)
        = Inr None"
  by (simp add: nonempty_mapping_def generate_pdf_report_def spleen_plan failing_renderer_def
      render_def)
     (simp add: spleen_only_def)

text \<open>
  Claim C6, amended: the result is null exactly when the input is empty or not a
  mapping, or when the report with the table is built and its rendering raises.  For
  every input with at least one entry, all of whose entries get a sentinel row (none
  yields a usable volume), the story is the head followed by the explanatory single
  line instead of a table, and the result is the rendered bytes, not null, whenever
  the rendering returns.
\<close>

theorem null_result_cases:
  "(generate_pdf_report rt data = Inr None \<longleftrightarrow>
      \<not> nonempty_mapping data
      \<or> (\<exists>items story. data = JDict items \<and> report_plan rt items = Inr (WithTable story)
            \<and> isl (render rt story)))
   \<and> (items \<noteq> [] \<and> list_all (unusable rt) items \<longrightarrow>
        report_plan rt items = Inr (Explanatory (explanatory_story rt))
        \<and> generate_pdf_report rt (JDict items) =
            (case render rt (explanatory_story rt) of
               Inl e \<Rightarrow> Inl e | Inr pdf_bytes \<Rightarrow> Inr (Some pdf_bytes)))"
proof (intro conjI impI)
  show "generate_pdf_report rt data = Inr None \<longleftrightarrow>
      \<not> nonempty_mapping data
      \<or> (\<exists>items story. data = JDict items \<and> report_plan rt items = Inr (WithTable story)
            \<and> isl (render rt story))"
    by (cases data)
       (auto simp: generate_pdf_report_def nonempty_mapping_def
          split: sum.splits plan.splits dest: with_table_nonempty)
next
  assume h: "items \<noteq> [] \<and> list_all (unusable rt) items"
  then show "report_plan rt items = Inr (Explanatory (explanatory_story rt))"
    using unusable_plan by (simp add: list_all_iff)
  with h show "generate_pdf_report rt (JDict items) =
            (case render rt (explanatory_story rt) of
               Inl e \<Rightarrow> Inl e | Inr pdf_bytes \<Rightarrow> Inr (Some pdf_bytes))"
    by (simp add: generate_pdf_report_def)
qed

theorem null_result_cases_witness:
  "intensity_only \<noteq> [] \<and> list_all (unusable sample_runtime) intensity_only
   \<and> generate_pdf_report sample_runtime (JDict intensity_only) =
       Inr (Some (''Organ Volume Report'' @ ''Report generated on: 2024-01-01 12:00:00'' @
                  ''No valid organ volume data available to display.'' @ '' (id 5f2a)''))
   \<and> generate_pdf_report sample_runtime (JDict []) = Inr None
   \<and> generate_pdf_report sample_runtime JNull = Inr None"
proof -
  have h: "intensity_only \<noteq> [] \<and> list_all (unusable sample_runtime) intensity_only"
    by (simp add: intensity_only_def unusable_def organ_row_def)
  have e: "render sample_runtime (explanatory_story sample_runtime) =
      Inr (''Organ Volume Report'' @ ''Report generated on: 2024-01-01 12:00:00'' @
                  ''No valid organ volume data available to display.'' @ '' (id 5f2a)'')"
    by (simp add: sample_runtime_def text_renderer_def explanatory_story_def report_head_def
        render_def)
  have n: "\<not> nonempty_mapping (JDict []) \<and> \<not> nonempty_mapping JNull"
    by (simp add: nonempty_mapping_def)
  show ?thesis
    using h e n
      null_result_cases [of sample_runtime "JDict []" intensity_only]
      null_result_cases [of sample_runtime JNull intensity_only]
    by simp
qed

subsection \<open>Unit conversion\<close>

text \<open>
  Claim C7: for an entry that is a mapping whose \<open>volume\<close> converts to a float, the
  row pairs the capitalized organ name with the volume divided by 1000 and formatted
  to two decimals, and the entry counts as valid.  For a finite volume \<open>q \<ge> 0\<close> the
  cell shows a number of hundredths \<open>n\<close> in fixed notation, and \<open>n / 100\<close> is
  \<open>q / 1000\<close> up to the two roundings (half a hundredth, and the binary64 rounding of
  the quotient).  In particular the input \<open>{"spleen": {"volume": 377109.0}}\<close> gives
  the table with the single data row \<open>("Spleen", "377.11")\<close>.
\<close>

theorem usable_volume_row:
  assumes "map_of d ''volume'' = Some v" and "py_float rt v = Inr volume_mm3"
  shows "organ_row rt organ (JDict d) =
           Inr ([capitalize rt organ, fmt_2f (truediv_1000 volume_mm3)], True)
         \<and> (volume_mm3 = Finite q \<and> 0 \<le> q \<longrightarrow>
              (\<exists>n. fmt_2f (truediv_1000 volume_mm3) = fixed2 n
                 \<and> \<bar>of_nat n / 100 - q / 1000\<bar>
                      \<le> 1 / 200 + max (q / 1000 / 2 ^ 53) (1 / 2 ^ 1075)))
         \<and> report_plan rt spleen_only =
             Inr (WithTable (table_story rt [[''Spleen'', ''377.11'']]))"
proof (intro conjI impI)
  show "organ_row rt organ (JDict d) =
           Inr ([capitalize rt organ, fmt_2f (truediv_1000 volume_mm3)], True)"
    using assms by (simp add: organ_row_def)
  show "report_plan rt spleen_only =
             Inr (WithTable (table_story rt [[''Spleen'', ''377.11'']]))"
    by (rule spleen_plan)
  assume "volume_mm3 = Finite q \<and> 0 \<le> q"
  then show "\<exists>n. fmt_2f (truediv_1000 volume_mm3) = fixed2 n
                 \<and> \<bar>of_nat n / 100 - q / 1000\<bar>
                      \<le> 1 / 200 + max (q / 1000 / 2 ^ 53) (1 / 2 ^ 1075)"
    using formatted_volume_accuracy [of q] by simp
qed

theorem usable_volume_row_witness:
  "map_of [(''volume'', JFloat (Finite 377109))] ''volume'' = Some (JFloat (Finite 377109))
   \<and> py_float sample_runtime (JFloat (Finite 377109)) = Inr (Finite 377109)
   \<and> organ_row sample_runtime ''spleen'' (JDict [(''volume'', JFloat (Finite 377109))]) =
        Inr ([''Spleen'', ''377.11''], True)"
proof -
  have h1: "map_of [(''volume'', JFloat (Finite 377109))] ''volume'' = Some (JFloat (Finite 377109))"
    by simp
  have h2: "py_float sample_runtime (JFloat (Finite 377109)) = Inr (Finite 377109)"
    by (simp add: py_float_def)
  show ?thesis
    using h1 h2 usable_volume_row [OF h1 h2, of "''spleen''"]
    by (simp add: truediv_spleen fmt_spleen capitalize_spleen)
qed


section \<open>Properties of the operators and of the application\<close>

subsection \<open>The graph that compose builds\<close>

lemma op_names [simp]:
  "op_name (loader p) = ''dicom_loader''"
  "op_name selector = ''series_selector''"
  "op_name totalseg_op = ''totalseg_op''"
  "op_name pdf_op = ''totalseg_pdf_op''"
  "op_name (pdf_to_dcm q) = ''pdf_dcm_encapsulator''"
  by (simp_all add: loader_def selector_def totalseg_op_def pdf_op_def pdf_to_dcm_def)

lemma op_classes [simp]:
  "op_class (loader p) = ''DICOMDataLoaderOperator''"
  "op_class selector = ''DICOMSeriesSelectorOperator''"
  "op_class totalseg_op = ''TotalsegmentatorOperator''"
  "op_class pdf_op = ''TotalsegmentatorPDFOperator''"
  "op_class (pdf_to_dcm q) = ''DICOMEncapsulatedPDFWriterOperator''"
  by (simp_all add: loader_def selector_def totalseg_op_def pdf_op_def pdf_to_dcm_def)

lemma op_distinct: "op_name a \<noteq> op_name b \<Longrightarrow> a \<noteq> b"
  by auto

lemma compose_operators:
  "operators (compose inp outp) = [loader inp, selector, totalseg_op, pdf_op, pdf_to_dcm outp]"
  by (simp add: compose_def add_flow_def add_operator_def op_distinct)

lemma compose_flows:
  "flows (compose inp outp) =
     [((''dicom_loader'', ''dicom_study_list''), (''series_selector'', ''dicom_study_list'')),
      ((''series_selector'', ''study_selected_series_list''),
         (''totalseg_op'', ''study_selected_series_list'')),
      ((''totalseg_op'', ''report_dict''), (''totalseg_pdf_op'', ''report_dict'')),
      ((''series_selector'', ''study_selected_series_list''),
         (''pdf_dcm_encapsulator'', ''study_selected_series_list'')),
      ((''totalseg_pdf_op'', ''pdf_bytes''), (''pdf_dcm_encapsulator'', ''pdf_bytes''))]"
  by (simp add: compose_def add_flow_def)

text \<open>The order in which the operators joined the graph is a topological order of it.\<close>

lemma compose_topological: "topological (compose inp outp)"
  by (simp add: topological_def compose_flows compose_operators position_def)

text \<open>
  Claim C2 says that the selection stage of the composed application is configured with
  the reference rule set (\<open>Modality == "CT"\<close>).  \<open>compose\<close> constructs the selector
  with its name only: the graph has one selector, without keyword arguments; no operator
  of the graph has an argument named \<open>rules\<close>, none is given \<open>Rules_Text\<close>, which the
  module defines and never uses; and the stage runs the library's selection on no
  arguments at all.
\<close>

theorem selector_is_built_without_rules:
  "filter (\<lambda>op. op_class op = ''DICOMSeriesSelectorOperator'') (operators (compose inp outp)) =
     [\<lparr>op_class = ''DICOMSeriesSelectorOperator'', op_name = ''series_selector'',
       op_count = None, op_kwargs = []\<rparr>]
   \<and> concat (map (map fst \<circ> op_kwargs) (operators (compose inp outp))) =
       [''input_folder'', ''output_folder'', ''model_info'', ''custom_tags'']
   \<and> KStr Rules_Text \<notin> set (concat (map (map snd \<circ> op_kwargs) (operators (compose inp outp))))
   \<and> behaviour h rt selector
         (\<lambda>port. if port = ''dicom_study_list'' then Some (StudyList studies) else None) fs =
       (case select_series h [] studies of
          Inl e \<Rightarrow> raise e fs
        | Inr selection \<Rightarrow>
            \<lparr>fault = None,
             emitted = [(SelectedSeriesList selection, ''study_selected_series_list'')],
             after = fs\<rparr>)"
  by (simp add: compose_operators behaviour_def)
     (simp add: loader_def selector_def totalseg_op_def pdf_op_def pdf_to_dcm_def model_info_def)

subsection \<open>The segmentation stage\<close>

lemma totalseg_compute_staged:
  assumes "staged h data_in fs = Some (temp, fs1)"
  shows "totalseg_compute h data_in fs =
     (case run_totalsegmentator h temp fs1 of
        (Inl e, fs') \<Rightarrow> \<lparr>fault = Some e, emitted = [], after = rmtree temp fs'\<rparr>
      | (Inr report, fs') \<Rightarrow>
          \<lparr>fault = None, emitted = [(ReportDict report, ''report_dict'')], after = rmtree temp fs'\<rparr>)"
  using assms
  by (auto simp: staged_def totalseg_compute_def with_temporary_directory_def segment_in_def Let_def
      split: sum.splits prod.splits)

lemma run_totalsegmentator_failure:
  assumes "run_process h (totalseg_argv temp) fs1 = (status, fs2)"
    and "segmentation_failure h temp status fs2 e"
  shows "run_totalsegmentator h temp fs1 = (Inl e, fs2)"
  using assms
  by (auto simp: run_totalsegmentator_def check_output_def totalseg_argv_def stats_path_def
      read_text_def segmentation_failure_def Let_def)

text \<open>When the segmentation stage raises, the run stops there, after three stages.\<close>

lemma run_app_segmentation_fault:
  assumes "load_studies h [(''input_folder'', KPath inp)] fs = Inr studies"
    and "select_series h [] studies = Inr data_in"
    and "fault (totalseg_compute h data_in fs) = Some e"
  shows "map fst (trace (run_app h rt (compose inp outp) fs)) =
           [''dicom_loader'', ''series_selector'', ''totalseg_op'']
         \<and> aborted (run_app h rt (compose inp outp) fs) = Some (''totalseg_op'', e)"
  using assms
  by (simp add: run_app_def compose_operators compose_flows ready_def bound_inputs_def
      deliver_def received_def behaviour_def Let_def loader_def selector_def)

subsection \<open>The sample host\<close>

lemma argv_sample:
  "totalseg_argv ''/tmp/tmpa1b2'' =
     [''TotalSegmentator'', ''-f'', ''--roi_subset'', ''spleen'', ''--statistics'', ''--body_seg'',
      ''-i'', ''/tmp/tmpa1b2'', ''-o'', ''/tmp/tmpa1b2/out'']"
  by (simp add: totalseg_argv_def totalseg_cmd_def)

lemma sample_staged:
  "staged (sample_host status statistics) sample_selection sample_fs =
     Some (''/tmp/tmpa1b2'', staged_fs)"
  by (simp add: staged_def sample_host_def first_selected_series_def sample_selection_def
      sample_series_def copy2_def sample_fs_def basename_def staged_fs_def Let_def)

lemma sample_run_totalsegmentator:
  "run_totalsegmentator (sample_host 0 (Some ''{}'')) ''/tmp/tmpa1b2'' staged_fs =
     (Inr (JDict []), staged_fs(''/tmp/tmpa1b2/out/statistics.json'' \<mapsto> File ''{}''))"
  using argv_sample
  by (simp add: run_totalsegmentator_def check_output_def sample_host_def stub_segmenter_def
      totalseg_argv_def read_text_def sample_json_loads_def Let_def)

lemma sample_totalseg_compute:
  "totalseg_compute (sample_host 0 (Some ''{}'')) sample_selection sample_fs =
     \<lparr>fault = None, emitted = [(ReportDict (JDict []), ''report_dict'')],
      after = rmtree ''/tmp/tmpa1b2''
        (staged_fs(''/tmp/tmpa1b2/out/statistics.json'' \<mapsto> File ''{}''))\<rparr>"
  by (simp add: totalseg_compute_staged [OF sample_staged] sample_run_totalsegmentator)

lemma sample_fresh: "fresh (sample_host status statistics) sample_fs"
  by (auto simp: fresh_def sample_host_def sample_fs_def is_under_def)

lemma sample_confined: "confined (sample_host status statistics) sample_fs"
  by (cases statistics)
     (auto simp: confined_def sample_host_def stub_segmenter_def argv_sample is_under_def)

subsection \<open>A null report\<close>

text \<open>
  Claim C1 says that the PDF stage does not emit on \<open>pdf_bytes\<close> when the formatter
  returns null, so that the embedding stage is never invoked with null report bytes.
  \<open>compute\<close> emits whatever the formatter returns (line 44): for the statistics \<open>{}\<close>
  the formatter returns \<open>None\<close>, the stage emits \<open>None\<close> on \<open>pdf_bytes\<close>, the edge
  fires, and in the run of the application on a host whose executable writes \<open>{}\<close> the
  embedding stage is invoked with the selected series and \<open>None\<close>.
\<close>

theorem null_report_reaches_embedding:
  "generate_pdf_report rt (JDict []) = Inr None
   \<and> pdf_compute rt (JDict []) fs =
       \<lparr>fault = None, emitted = [(PdfBytes None, ''pdf_bytes'')], after = fs\<rparr>
   \<and> trace (run_app (sample_host 0 (Some ''{}'')) rt (compose inp outp) sample_fs) =
       [(''dicom_loader'', []),
        (''series_selector'', [(''dicom_study_list'', StudyList sample_studies)]),
        (''totalseg_op'', [(''study_selected_series_list'', SelectedSeriesList sample_selection)]),
        (''totalseg_pdf_op'', [(''report_dict'', ReportDict (JDict []))]),
        (''pdf_dcm_encapsulator'',
           [(''study_selected_series_list'', SelectedSeriesList sample_selection),
            (''pdf_bytes'', PdfBytes None)])]"
proof (intro conjI)
  show g: "generate_pdf_report rt (JDict []) = Inr None"
    by (simp add: generate_pdf_report_def)
  then show "pdf_compute rt (JDict []) fs =
       \<lparr>fault = None, emitted = [(PdfBytes None, ''pdf_bytes'')], after = fs\<rparr>"
    by (simp add: pdf_compute_def)
  have l: "load_studies (sample_host 0 (Some ''{}'')) kw fs0 = Inr sample_studies" for kw fs0
    by (simp add: sample_host_def)
  have s: "select_series (sample_host 0 (Some ''{}'')) kw st = Inr sample_selection" for kw st
    by (simp add: sample_host_def)
  have w: "write_pdf_dcm (sample_host 0 (Some ''{}'')) kw sel b fs0 = (None, fs0)" for kw sel b fs0
    by (simp add: sample_host_def)
  show "trace (run_app (sample_host 0 (Some ''{}'')) rt (compose inp outp) sample_fs) =
       [(''dicom_loader'', []),
        (''series_selector'', [(''dicom_study_list'', StudyList sample_studies)]),
        (''totalseg_op'', [(''study_selected_series_list'', SelectedSeriesList sample_selection)]),
        (''totalseg_pdf_op'', [(''report_dict'', ReportDict (JDict []))]),
        (''pdf_dcm_encapsulator'',
           [(''study_selected_series_list'', SelectedSeriesList sample_selection),
            (''pdf_bytes'', PdfBytes None)])]"
    by (simp add: run_app_def compose_operators compose_flows ready_def bound_inputs_def
        deliver_def received_def behaviour_def Let_def l s w sample_totalseg_compute
        pdf_compute_def g)
qed

subsection \<open>A failing segmentation\<close>

text \<open>
  Claim C8: in a run in which the loader and the selector have delivered the selection
  and the instances of its first series were copied, if the executable exits with a
  non-zero status, or exits with zero and left no statistics file, or left one that
  is not JSON, then the segmentation stage raises (\<open>CalledProcessError\<close>,
  \<open>FileNotFoundError\<close>, \<open>JSONDecodeError\<close>) and has emitted nothing; the run is
  aborted by that stage, and the stages invoked are the loader, the selector and the
  segmentation stage only: neither the formatter stage nor the embedding stage runs.
\<close>

theorem segmentation_failure_aborts_run:
  assumes "load_studies h [(''input_folder'', KPath inp)] fs = Inr studies"
    and "select_series h [] studies = Inr data_in"
    and "staged h data_in fs = Some (temp, fs1)"
    and "run_process h (totalseg_argv temp) fs1 = (status, fs2)"
    and "segmentation_failure h temp status fs2 e"
  shows "fault (totalseg_compute h data_in fs) = Some e
       \<and> emitted (totalseg_compute h data_in fs) = []
       \<and> aborted (run_app h rt (compose inp outp) fs) = Some (''totalseg_op'', e)
       \<and> map fst (trace (run_app h rt (compose inp outp) fs)) =
           [''dicom_loader'', ''series_selector'', ''totalseg_op'']"
proof -
  have c: "totalseg_compute h data_in fs = \<lparr>fault = Some e, emitted = [], after = rmtree temp fs2\<rparr>"
    using totalseg_compute_staged [OF assms(3)] run_totalsegmentator_failure [OF assms(4,5)]
    by simp
  then have "fault (totalseg_compute h data_in fs) = Some e" by simp
  from run_app_segmentation_fault [OF assms(1,2) this] c show ?thesis by simp
qed

theorem segmentation_failure_aborts_run_witness:
  "aborted (run_app (sample_host 1 None) sample_runtime (compose ''/input'' ''/output'') sample_fs)
     = Some (''totalseg_op'', CalledProcessError 1)
   \<and> map fst (trace (run_app (sample_host 1 None) sample_runtime (compose ''/input'' ''/output'') sample_fs))
     = [''dicom_loader'', ''series_selector'', ''totalseg_op'']
   \<and> aborted (run_app (sample_host 0 None) sample_runtime (compose ''/input'' ''/output'') sample_fs)
     = Some (''totalseg_op'', FileNotFoundError)
   \<and> aborted (run_app (sample_host 0 (Some ''not json'')) sample_runtime
        (compose ''/input'' ''/output'') sample_fs)
     = Some (''totalseg_op'', JSONDecodeError)"
proof -
  have l: "load_studies (sample_host s t) [(''input_folder'', KPath ''/input'')] sample_fs
      = Inr sample_studies" for s t
    by (simp add: sample_host_def)
  have sel: "select_series (sample_host s t) [] sample_studies = Inr sample_selection" for s t
    by (simp add: sample_host_def)
  have r1: "run_process (sample_host 1 None) (totalseg_argv ''/tmp/tmpa1b2'') staged_fs
      = (Inr 1, staged_fs)"
    by (simp add: sample_host_def stub_segmenter_def)
  have f1: "segmentation_failure (sample_host 1 None) ''/tmp/tmpa1b2'' (Inr 1) staged_fs
      (CalledProcessError 1)"
    by (simp add: segmentation_failure_def)
  have r2: "run_process (sample_host 0 None) (totalseg_argv ''/tmp/tmpa1b2'') staged_fs
      = (Inr 0, staged_fs)"
    by (simp add: sample_host_def stub_segmenter_def)
  have f2: "segmentation_failure (sample_host 0 None) ''/tmp/tmpa1b2'' (Inr 0) staged_fs
      FileNotFoundError"
    by (simp add: segmentation_failure_def stats_path_def staged_fs_def sample_fs_def)
  have r3: "run_process (sample_host 0 (Some ''not json'')) (totalseg_argv ''/tmp/tmpa1b2'') staged_fs
      = (Inr 0, staged_fs(''/tmp/tmpa1b2/out/statistics.json'' \<mapsto> File ''not json''))"
    by (simp add: sample_host_def stub_segmenter_def argv_sample)
  have f3: "segmentation_failure (sample_host 0 (Some ''not json'')) ''/tmp/tmpa1b2'' (Inr 0)
      (staged_fs(''/tmp/tmpa1b2/out/statistics.json'' \<mapsto> File ''not json'')) JSONDecodeError"
    by (simp add: segmentation_failure_def stats_path_def sample_host_def sample_json_loads_def)
  show ?thesis
    using segmentation_failure_aborts_run [OF l sel sample_staged r1 f1, of sample_runtime "''/output''"]
      segmentation_failure_aborts_run [OF l sel sample_staged r2 f2, of sample_runtime "''/output''"]
      segmentation_failure_aborts_run [OF l sel sample_staged r3 f3, of sample_runtime "''/output''"]
    by simp
qed


subsection \<open>The temporary working area\<close>

lemma is_under_child: "is_under temp (temp @ ''/'' @ name)"
  by (simp add: is_under_def)

lemma is_under_self: "is_under temp temp"
  by (simp add: is_under_def)

lemma copy2_outside:
  "copy2 src temp fs = (r, fs') \<Longrightarrow> \<not> is_under temp p \<Longrightarrow> fs' p = fs p"
  using is_under_child [of temp "basename src"]
  by (auto simp: copy2_def split: option.splits node.splits)

lemma copy_instances_outside:
  "copy_instances srcs temp fs = (r, fs') \<Longrightarrow> \<not> is_under temp p \<Longrightarrow> fs' p = fs p"
proof (induction srcs arbitrary: fs)
  case Nil
  then show ?case by simp
next
  case (Cons src srcs)
  obtain r1 fs1 where c: "copy2 src temp fs = (r1, fs1)" by (cases "copy2 src temp fs")
  have o: "fs1 p = fs p" using copy2_outside [OF c Cons.prems(2)] .
  show ?case
  proof (cases r1)
    case (Inl e)
    with Cons.prems c o show ?thesis by simp
  next
    case (Inr u)
    with Cons.prems c have "copy_instances srcs temp fs1 = (r, fs')" by simp
    from Cons.IH [OF this Cons.prems(2)] o show ?thesis by simp
  qed
qed

lemma run_totalsegmentator_outside:
  assumes "\<forall>fs1 p. \<not> is_under temp p \<longrightarrow> snd (run_process h (totalseg_argv temp) fs1) p = fs1 p"
    and "run_totalsegmentator h temp fs = (r, fs')" and "\<not> is_under temp p"
  shows "fs' p = fs p"
proof -
  obtain st fs2 where rp: "run_process h (totalseg_argv temp) fs = (st, fs2)"
    by (cases "run_process h (totalseg_argv temp) fs")
  with assms(1,3) have "fs2 p = fs p" by (metis snd_conv)
  moreover from assms(2) rp have "fs' = fs2"
    by (auto simp: run_totalsegmentator_def check_output_def totalseg_argv_def Let_def
        split: sum.splits if_splits option.splits)
  ultimately show ?thesis by simp
qed

lemma segment_in_outside:
  assumes "\<forall>fs1 p. \<not> is_under temp p \<longrightarrow> snd (run_process h (totalseg_argv temp) fs1) p = fs1 p"
    and "segment_in h data_in temp fs = (r, fs')" and "\<not> is_under temp p"
  shows "fs' p = fs p"
proof (cases "first_selected_series data_in")
  case (Inl e)
  with assms(2) show ?thesis by (simp add: segment_in_def)
next
  case (Inr s)
  obtain r1 fs1 where c: "copy_instances (sop_filenames s) temp fs = (r1, fs1)"
    by (cases "copy_instances (sop_filenames s) temp fs")
  have o: "fs1 p = fs p" using copy_instances_outside [OF c assms(3)] .
  show ?thesis
  proof (cases r1)
    case (Inl e)
    with assms(2) Inr c o show ?thesis by (simp add: segment_in_def)
  next
    case (Inr u)
    with assms(2) \<open>first_selected_series data_in = Inr s\<close> c
    have "run_totalsegmentator h temp fs1 = (r, fs')" by (simp add: segment_in_def)
    from run_totalsegmentator_outside [OF assms(1) this assms(3)] o show ?thesis by simp
  qed
qed

lemma after_totalseg_compute:
  "segment_in h data_in (mkdtemp h fs) (fs(mkdtemp h fs \<mapsto> Dir)) = (r, fs') \<Longrightarrow>
     after (totalseg_compute h data_in fs) = rmtree (mkdtemp h fs) fs'"
  by (simp add: totalseg_compute_def with_temporary_directory_def Let_def split: sum.splits)

text \<open>
  Claim C9: every invocation of the segmentation stage creates its working area (the
  body of the \<open>with\<close> statement runs in a file system in which the directory exists),
  and whether the body returns or raises, the file system the invocation leaves is the
  body's with the whole area removed: nothing exists at or below the directory.  The
  stage changes nothing else: when the directory name is fresh and the executable
  writes only inside the area, the file system after the invocation is the file system
  before it.
\<close>

theorem working_area_is_scoped:
  "(\<exists>r fs'. segment_in h data_in (mkdtemp h fs) (fs(mkdtemp h fs \<mapsto> Dir)) = (r, fs')
       \<and> (fs(mkdtemp h fs \<mapsto> Dir)) (mkdtemp h fs) = Some Dir
       \<and> after (totalseg_compute h data_in fs) = rmtree (mkdtemp h fs) fs'
       \<and> (fault (totalseg_compute h data_in fs) = None \<longleftrightarrow> \<not> isl r))
   \<and> (\<forall>p. is_under (mkdtemp h fs) p \<longrightarrow> after (totalseg_compute h data_in fs) p = None)
   \<and> (fresh h fs \<and> confined h fs \<longrightarrow> after (totalseg_compute h data_in fs) = fs)"
proof (intro conjI impI allI)
  obtain r fs' where b: "segment_in h data_in (mkdtemp h fs) (fs(mkdtemp h fs \<mapsto> Dir)) = (r, fs')"
    by (cases "segment_in h data_in (mkdtemp h fs) (fs(mkdtemp h fs \<mapsto> Dir))")
  have a: "after (totalseg_compute h data_in fs) = rmtree (mkdtemp h fs) fs'"
    using after_totalseg_compute [OF b] .
  have f: "fault (totalseg_compute h data_in fs) = None \<longleftrightarrow> \<not> isl r"
    using b by (cases r) (simp_all add: totalseg_compute_def with_temporary_directory_def Let_def)
  from b a f show "\<exists>r fs'. segment_in h data_in (mkdtemp h fs) (fs(mkdtemp h fs \<mapsto> Dir)) = (r, fs')
       \<and> (fs(mkdtemp h fs \<mapsto> Dir)) (mkdtemp h fs) = Some Dir
       \<and> after (totalseg_compute h data_in fs) = rmtree (mkdtemp h fs) fs'
       \<and> (fault (totalseg_compute h data_in fs) = None \<longleftrightarrow> \<not> isl r)"
    by auto
  {
    fix p assume "is_under (mkdtemp h fs) p"
    with a show "after (totalseg_compute h data_in fs) p = None" by (simp add: rmtree_def)
  }
  {
    assume h: "fresh h fs \<and> confined h fs"
    then have conf: "\<forall>fs1 p. \<not> is_under (mkdtemp h fs) p \<longrightarrow>
        snd (run_process h (totalseg_argv (mkdtemp h fs)) fs1) p = fs1 p"
      by (simp add: confined_def)
    show "after (totalseg_compute h data_in fs) = fs"
    proof
      fix p
      show "after (totalseg_compute h data_in fs) p = fs p"
      proof (cases "is_under (mkdtemp h fs) p")
        case True
        with h a show ?thesis by (simp add: rmtree_def fresh_def)
      next
        case False
        then have "p \<noteq> mkdtemp h fs" using is_under_self by blast
        with segment_in_outside [OF conf b False] a False show ?thesis
          by (simp add: rmtree_def)
      qed
    qed
  }
qed

theorem working_area_is_scoped_witness:
  "fresh (sample_host 0 (Some ''{}'')) sample_fs \<and> confined (sample_host 0 (Some ''{}'')) sample_fs
   \<and> fault (totalseg_compute (sample_host 0 (Some ''{}'')) sample_selection sample_fs) = None
   \<and> after (totalseg_compute (sample_host 0 (Some ''{}'')) sample_selection sample_fs) = sample_fs
   \<and> fresh (sample_host 1 None) sample_fs \<and> confined (sample_host 1 None) sample_fs
   \<and> after (totalseg_compute (sample_host 1 None) sample_selection sample_fs) = sample_fs"
  using sample_fresh sample_confined
    working_area_is_scoped [of "sample_host 0 (Some ''{}'')" sample_selection sample_fs]
    working_area_is_scoped [of "sample_host 1 None" sample_selection sample_fs]
  by (simp add: sample_totalseg_compute)

subsection \<open>The first selected series\<close>












end
